theory Spec2Isabelle
  imports Complex_Main "HOL-Library.AList" "HOL-Library.Multiset"
begin

section \<open>The per-connector rate limiter (BaseApiProvider)\<close>

text \<open>
  Numbers are JavaScript numbers in the source. Timestamps (\<open>Date.now()\<close>, milliseconds),
  request counts and token counts are integers there, far below \<open>2^53\<close>, so they are
  modelled as \<open>int\<close>. An optional configuration field (\<open>rateLimitRPM?: number\<close>) is an
  \<open>option\<close>, \<open>None\<close> standing for \<open>undefined\<close>.
\<close>

record RateLimitState =
  requestsThisMinute :: int
  tokensThisMinute :: int
  lastRequestTime :: int
  lastResetTime :: int

text \<open>The fields of \<open>ApiProviderConfig\<close> that the base provider reads.\<close>

record ApiProviderConfig =
  cfg_id :: string
  cfg_enabled :: bool
  cfg_apiKey :: "string option"
  rateLimitRPM :: "int option"
  rateLimitTPM :: "int option"

text \<open>The result object \<open>{ allowed: boolean; retryAfter?: number }\<close>.\<close>

record RateLimitCheck =
  allowed :: bool
  retryAfter :: "int option"

text \<open>
  Truthiness of an optional number, as the guard \<open>this.config.rateLimitRPM && ...\<close> reads it:
  \<open>undefined\<close> and \<open>0\<close> are falsy.
\<close>

definition truthy_num :: "int option \<Rightarrow> bool" where
  "truthy_num v = (case v of None \<Rightarrow> False | Some n \<Rightarrow> n \<noteq> 0)"

text \<open>\<open>Math.ceil((60000 - elapsedSinceReset) / 1000)\<close>.\<close>

definition retryAfterSeconds :: "int \<Rightarrow> int" where
  "retryAfterSeconds elapsedSinceReset = \<lceil>real_of_int (60000 - elapsedSinceReset) / 1000\<rceil>"

text \<open>
  \<open>checkRateLimit(estimatedTokens)\<close>; \<open>now\<close> is the value \<open>Date.now()\<close> returns in the call.
  The state after the call is returned beside the result.
\<close>

definition checkRateLimit ::
  "ApiProviderConfig \<Rightarrow> int \<Rightarrow> int \<Rightarrow> RateLimitState \<Rightarrow> RateLimitCheck \<times> RateLimitState" where
  "checkRateLimit config estimatedTokens now st =
     (let elapsedSinceReset = now - lastResetTime st in
      if elapsedSinceReset \<ge> 60000 then
        (\<lparr>allowed = True, retryAfter = None\<rparr>,
         \<lparr>requestsThisMinute = 0, tokensThisMinute = 0, lastRequestTime = now, lastResetTime = now\<rparr>)
      else if truthy_num (rateLimitRPM config) \<and>
              requestsThisMinute st \<ge> the (rateLimitRPM config) then
        (\<lparr>allowed = False, retryAfter = Some (retryAfterSeconds elapsedSinceReset)\<rparr>, st)
      else if truthy_num (rateLimitTPM config) \<and>
              tokensThisMinute st + estimatedTokens > the (rateLimitTPM config) then
        (\<lparr>allowed = False, retryAfter = Some (retryAfterSeconds elapsedSinceReset)\<rparr>, st)
      else (\<lparr>allowed = True, retryAfter = None\<rparr>, st))"

text \<open>\<open>updateRateLimitCounters(tokens)\<close>, with \<open>now\<close> the value of \<open>Date.now()\<close>.\<close>

definition updateRateLimitCounters :: "int \<Rightarrow> int \<Rightarrow> RateLimitState \<Rightarrow> RateLimitState" where
  "updateRateLimitCounters tokens now st =
     (let elapsedSinceReset = now - lastResetTime st in
      if elapsedSinceReset \<ge> 60000 then
        \<lparr>requestsThisMinute = 1, tokensThisMinute = tokens, lastRequestTime = now, lastResetTime = now\<rparr>
      else
        st\<lparr>requestsThisMinute := requestsThisMinute st + 1,
           tokensThisMinute := tokensThisMinute st + tokens,
           lastRequestTime := now\<rparr>)"

text \<open>
  A history of limiter invocations on one connector: each entry is one method call with the
  clock value it reads. \<open>run_limiter\<close> applies them in order.
\<close>

datatype limiter_call = Check int int | Update int int

fun call_time :: "limiter_call \<Rightarrow> int" where
  "call_time (Check estimatedTokens now) = now"
| "call_time (Update tokens now) = now"

fun is_update :: "limiter_call \<Rightarrow> bool" where
  "is_update (Check estimatedTokens now) = False"
| "is_update (Update tokens now) = True"

fun limiter_step :: "ApiProviderConfig \<Rightarrow> limiter_call \<Rightarrow> RateLimitState \<Rightarrow> RateLimitState" where
  "limiter_step config (Check estimatedTokens now) st = snd (checkRateLimit config estimatedTokens now st)"
| "limiter_step config (Update tokens now) st = updateRateLimitCounters tokens now st"

fun run_limiter :: "ApiProviderConfig \<Rightarrow> limiter_call list \<Rightarrow> RateLimitState \<Rightarrow> RateLimitState" where
  "run_limiter config [] st = st"
| "run_limiter config (c # cs) st = run_limiter config cs (limiter_step config c st)"

text \<open>A clock value lies in the window that started at \<open>start\<close>.\<close>

definition in_window :: "int \<Rightarrow> int \<Rightarrow> bool" where
  "in_window start now = (start \<le> now \<and> now < start + 60000)"

subsection \<open>The algorithm as the specification words it\<close>

text \<open>
  The specification's window has three fields and its limits are plain numbers. These two
  definitions follow the specification's sentence, not the source.
\<close>

record RateLimitWindow =
  requestsThisWindow :: int
  tokensThisWindow :: int
  windowStart :: int

datatype verdict = Allow | Reject int

definition spec_check :: "int \<Rightarrow> int \<Rightarrow> int \<Rightarrow> int \<Rightarrow> RateLimitWindow \<Rightarrow> verdict \<times> RateLimitWindow" where
  "spec_check rpmLimit tpmLimit estimatedTokens now w =
     (let elapsed = now - windowStart w in
      if elapsed \<ge> 60000 then
        (Allow, \<lparr>requestsThisWindow = 0, tokensThisWindow = 0, windowStart = now\<rparr>)
      else if requestsThisWindow w \<ge> rpmLimit \<or> tokensThisWindow w + estimatedTokens > tpmLimit then
        (Reject \<lceil>real_of_int (60000 - elapsed) / 1000\<rceil>, w)
      else (Allow, w))"

definition spec_update :: "int \<Rightarrow> int \<Rightarrow> RateLimitWindow \<Rightarrow> RateLimitWindow" where
  "spec_update actualTokens now w =
     (if now - windowStart w \<ge> 60000 then
        \<lparr>requestsThisWindow = 1, tokensThisWindow = actualTokens, windowStart = now\<rparr>
      else
        w\<lparr>requestsThisWindow := requestsThisWindow w + 1,
          tokensThisWindow := tokensThisWindow w + actualTokens\<rparr>)"

text \<open>
  The same algorithm with limits that may be out of force: \<open>None\<close> is a limit that is not
  enforced. \<open>enforced\<close> tells which configured limit is in force: one that is set and is
  not 0.
\<close>

definition spec_check_optional ::
  "int option \<Rightarrow> int option \<Rightarrow> int \<Rightarrow> int \<Rightarrow> RateLimitWindow \<Rightarrow> verdict \<times> RateLimitWindow" where
  "spec_check_optional rpmLimit tpmLimit estimatedTokens now w =
     (let elapsed = now - windowStart w in
      if elapsed \<ge> 60000 then
        (Allow, \<lparr>requestsThisWindow = 0, tokensThisWindow = 0, windowStart = now\<rparr>)
      else if (case rpmLimit of None \<Rightarrow> False | Some limit \<Rightarrow> requestsThisWindow w \<ge> limit)
              \<or> (case tpmLimit of None \<Rightarrow> False
                   | Some limit \<Rightarrow> tokensThisWindow w + estimatedTokens > limit) then
        (Reject \<lceil>real_of_int (60000 - elapsed) / 1000\<rceil>, w)
      else (Allow, w))"

definition enforced :: "int option \<Rightarrow> int option" where
  "enforced limit = (case limit of None \<Rightarrow> None | Some n \<Rightarrow> if n = 0 then None else Some n)"

text \<open>The abstraction from the source's state and result to the specification's.\<close>

definition window_of :: "RateLimitState \<Rightarrow> RateLimitWindow" where
  "window_of st =
     \<lparr>requestsThisWindow = requestsThisMinute st, tokensThisWindow = tokensThisMinute st,
      windowStart = lastResetTime st\<rparr>"

definition verdict_of :: "RateLimitCheck \<Rightarrow> verdict" where
  "verdict_of r = (if allowed r then Allow else Reject (the (retryAfter r)))"

section \<open>The model orchestrator (ModelOrchestrator)\<close>

text \<open>
  A thrown \<open>Error\<close>: its message and the \<open>code\<close> and \<open>type\<close> properties the connectors
  attach to some errors (\<open>None\<close> when the property is absent).
\<close>

datatype error = Error (message: string) (code: "string option") (etype: "string option")

record ApiResponse =
  resp_id :: string
  resp_model :: string
  content :: string
  promptTokens :: int
  completionTokens :: int
  totalTokens :: int
  finishReason :: string
  created :: real

record ModelConfig =
  provider :: string
  modelId :: string
  enabled :: bool
  priority :: int
  capabilities :: "string list"
  contextWindow :: int

text \<open>The union type \<open>'error' | 'retry' | 'alternative'\<close>.\<close>

datatype fallback = FallbackError | FallbackRetry | FallbackAlternative

text \<open>
  \<open>models\<close> and \<open>providers\<close> are JavaScript objects used as dictionaries; each is given
  as the list \<open>Object.entries\<close> yields, looked up with \<open>map_of\<close>.
\<close>

record OrchestratorConfig =
  models :: "(string \<times> ModelConfig) list"
  timeoutMs :: int
  fallbackBehavior :: fallback
  providers :: "(string \<times> ApiProviderConfig) list"

record TaskOptions =
  temperature :: "real option"
  maxTokens :: "int option"
  stream :: "bool option"

text \<open>
  \<open>AITask\<close>. The fields \<open>context\<close>, \<open>filePath\<close> and \<open>selection\<close> only feed the prompt
  text that \<open>formatMessagesForTask\<close> builds for the connector and are left to the
  connector call below.
\<close>

record AITask =
  task_type :: string
  query :: string
  options :: "TaskOptions option"

record TaskSelector =
  selector_name :: string
  predicate :: "AITask \<Rightarrow> bool"
  modelPriority :: "string list"

text \<open>The state of a connector object that the orchestrator and the limiter read.\<close>

record BaseApiProvider =
  provider_config :: ApiProviderConfig
  apiKey :: "string option"
  rateLimitState :: RateLimitState

text \<open>\<open>isConfigured()\<close> is \<open>!!this.apiKey\<close>: \<open>undefined\<close> and the empty string are falsy.\<close>

definition isConfigured :: "BaseApiProvider \<Rightarrow> bool" where
  "isConfigured p = (case apiKey p of None \<Rightarrow> False | Some k \<Rightarrow> k \<noteq> [])"

text \<open>
  The orchestrator object: \<open>this.config\<close>, \<open>this.providers\<close> (the registry, keyed by
  provider name), \<open>this.modelSelectors\<close> and \<open>this.activeRequests\<close> (task id to the
  registry key of the connector in use).
\<close>

record ModelOrchestrator =
  orch_config :: OrchestratorConfig
  registry :: "(string \<times> BaseApiProvider) list"
  modelSelectors :: "TaskSelector list"
  activeRequests :: "(string \<times> string) list"

definition new_orchestrator :: "OrchestratorConfig \<Rightarrow> ModelOrchestrator" where
  "new_orchestrator cfg =
     \<lparr>orch_config = cfg, registry = [], modelSelectors = [], activeRequests = []\<rparr>"

subsection \<open>Initialisation and selectors\<close>

text \<open>
  The loop of \<open>initializeProviders\<close> over \<open>Object.entries(this.config.providers)\<close>.
  \<open>make_connector\<close> stands for the connector constructors (\<open>new OpenAIProvider(...)\<close>,
  \<open>new AnthropicProvider(...)\<close>); \<open>None\<close> is a constructor that throws, which the loop's
  \<open>try\<close> catches and skips.
\<close>

fun initializeProviders_loop ::
  "(string \<Rightarrow> ApiProviderConfig \<Rightarrow> BaseApiProvider option) \<Rightarrow>
   (string \<times> ApiProviderConfig) list \<Rightarrow> (string \<times> BaseApiProvider) list \<Rightarrow>
   (string \<times> BaseApiProvider) list" where
  "initializeProviders_loop make_connector [] reg = reg"
| "initializeProviders_loop make_connector ((providerName, providerConfig) # rest) reg =
     (if \<not> cfg_enabled providerConfig then initializeProviders_loop make_connector rest reg
      else if providerName = ''openai'' \<or> providerName = ''anthropic'' then
        (case make_connector providerName providerConfig of
           None \<Rightarrow> initializeProviders_loop make_connector rest reg
         | Some p \<Rightarrow> initializeProviders_loop make_connector rest (AList.update providerName p reg))
      else initializeProviders_loop make_connector rest reg)"

definition initializeProviders ::
  "(string \<Rightarrow> ApiProviderConfig \<Rightarrow> BaseApiProvider option) \<Rightarrow> ModelOrchestrator \<Rightarrow>
   error + ModelOrchestrator" where
  "initializeProviders make_connector orch =
     (let reg = initializeProviders_loop make_connector (providers (orch_config orch)) (registry orch)
      in if reg = [] then Inl (Error ''No API providers were successfully initialized'' None None)
         else Inr (orch\<lparr>registry := reg\<rparr>))"

definition code_generation_selector :: TaskSelector where
  "code_generation_selector =
     \<lparr>selector_name = ''code-generation'',
      predicate = (\<lambda>task. task_type task = ''generate'' \<or> task_type task = ''complete''),
      modelPriority = [''code-specialist'', ''general-purpose'', ''fallback'']\<rparr>"

definition explanation_selector :: TaskSelector where
  "explanation_selector =
     \<lparr>selector_name = ''explanation'',
      predicate = (\<lambda>task. task_type task = ''explain'' \<or> task_type task = ''document''),
      modelPriority = [''explanation-specialist'', ''general-purpose'', ''fallback'']\<rparr>"

definition refactoring_selector :: TaskSelector where
  "refactoring_selector =
     \<lparr>selector_name = ''refactoring'',
      predicate = (\<lambda>task. task_type task = ''refactor''),
      modelPriority = [''code-specialist'', ''general-purpose'', ''fallback'']\<rparr>"

definition testing_selector :: TaskSelector where
  "testing_selector =
     \<lparr>selector_name = ''testing'',
      predicate = (\<lambda>task. task_type task = ''test''),
      modelPriority = [''code-specialist'', ''general-purpose'', ''fallback'']\<rparr>"

definition default_selector :: TaskSelector where
  "default_selector =
     \<lparr>selector_name = ''default'',
      predicate = (\<lambda>task. True),
      modelPriority = [''general-purpose'', ''fallback'']\<rparr>"

text \<open>\<open>registerDefaultSelectors\<close>: five \<open>push\<close> calls, in this order.\<close>

definition registerDefaultSelectors :: "ModelOrchestrator \<Rightarrow> ModelOrchestrator" where
  "registerDefaultSelectors orch =
     orch\<lparr>modelSelectors := modelSelectors orch @
       [code_generation_selector, explanation_selector, refactoring_selector,
        testing_selector, default_selector]\<rparr>"

text \<open>
  \<open>initialize\<close>: when \<open>initializeProviders\<close> throws, the \<open>catch\<close> reports the error and
  \<open>registerDefaultSelectors\<close> is not reached.
\<close>

definition initialize ::
  "(string \<Rightarrow> ApiProviderConfig \<Rightarrow> BaseApiProvider option) \<Rightarrow> ModelOrchestrator \<Rightarrow>
   ModelOrchestrator" where
  "initialize make_connector orch =
     (case initializeProviders make_connector orch of
        Inl e \<Rightarrow> orch
      | Inr orch' \<Rightarrow> registerDefaultSelectors orch')"

text \<open>\<open>addTaskSelector\<close>: \<open>this.modelSelectors.unshift(selector)\<close>.\<close>

definition addTaskSelector :: "TaskSelector \<Rightarrow> ModelOrchestrator \<Rightarrow> ModelOrchestrator" where
  "addTaskSelector selector orch = orch\<lparr>modelSelectors := selector # modelSelectors orch\<rparr>"

text \<open>The first lines of \<open>executeTask\<close>: \<open>this.modelSelectors.find(s => s.predicate(task))\<close>.\<close>

definition find_selector :: "ModelOrchestrator \<Rightarrow> AITask \<Rightarrow> TaskSelector option" where
  "find_selector orch task = find (\<lambda>s. predicate s task) (modelSelectors orch)"

subsection \<open>Request options\<close>

definition getTemperatureForTask :: "AITask \<Rightarrow> real" where
  "getTemperatureForTask task =
     (if task_type task = ''generate'' then 0.7
      else if task_type task = ''complete'' then 0.7
      else if task_type task = ''explain'' then 0.3
      else if task_type task = ''document'' then 0.3
      else if task_type task = ''refactor'' then 0.2
      else if task_type task = ''test'' then 0.2
      else 0.5)"

definition getMaxTokensForTask :: "AITask \<Rightarrow> int" where
  "getMaxTokensForTask task =
     (if task_type task = ''explain'' then 2000
      else if task_type task = ''document'' then 2000
      else if task_type task = ''generate'' then 1500
      else if task_type task = ''complete'' then 1500
      else if task_type task = ''refactor'' then 1000
      else 1000)"

text \<open>
  \<open>v || d\<close> on an optional number: \<open>d\<close> when \<open>v\<close> is \<open>undefined\<close> or \<open>0\<close>, else \<open>v\<close>.
  \<open>task.options?.maxTokens\<close> is \<open>undefined\<close> when \<open>options\<close> is.
\<close>

definition js_or :: "'a::zero option \<Rightarrow> 'a \<Rightarrow> 'a" where
  "js_or v d = (case v of None \<Rightarrow> d | Some x \<Rightarrow> if x = 0 then d else x)"

definition supplied_temperature :: "AITask \<Rightarrow> real option" where
  "supplied_temperature task = (case options task of None \<Rightarrow> None | Some opts \<Rightarrow> temperature opts)"

definition supplied_maxTokens :: "AITask \<Rightarrow> int option" where
  "supplied_maxTokens task = (case options task of None \<Rightarrow> None | Some opts \<Rightarrow> maxTokens opts)"

record ApiRequestOptions =
  req_model :: string
  req_maxTokens :: int
  req_temperature :: real
  req_stream :: bool

text \<open>The \<open>options\<close> object that \<open>executeWithModel\<close> prepares; \<open>streaming\<close> is \<open>!!streamCallback\<close>.\<close>

definition requestOptions :: "string \<Rightarrow> AITask \<Rightarrow> bool \<Rightarrow> ApiRequestOptions" where
  "requestOptions model_id task streaming =
     \<lparr>req_model = model_id,
      req_maxTokens = js_or (supplied_maxTokens task) (getMaxTokensForTask task),
      req_temperature = js_or (supplied_temperature task) (getTemperatureForTask task),
      req_stream = streaming\<rparr>"

subsection \<open>Dispatch\<close>

text \<open>
  The connector call raced against the timer. What the connector and the network do is not
  part of the orchestrator: \<open>call\<close> is a parameter that, from the state \<open>'w\<close> of everything
  outside the orchestrator (connectors, network, clock, the streaming callback), gives the
  way the race settles and the state afterwards. It receives the registry key of the
  connector, the request options, the task (from which the messages are formatted) and
  whether the call is \<open>streamingChat\<close> or \<open>chat\<close>.
\<close>

datatype race = Settled "error + ApiResponse" | TimerFired

type_synonym 'w connector_call =
  "string \<Rightarrow> ApiRequestOptions \<Rightarrow> AITask \<Rightarrow> bool \<Rightarrow> 'w \<Rightarrow> race \<times> 'w"

definition executeWithModel ::
  "'w connector_call \<Rightarrow> string \<Rightarrow> string \<Rightarrow> AITask \<Rightarrow> bool \<Rightarrow> 'w \<Rightarrow> (error + ApiResponse) \<times> 'w" where
  "executeWithModel call providerName model_id task streaming w =
     (case call providerName (requestOptions model_id task streaming) task streaming w of
        (Settled r, w') \<Rightarrow> (r, w')
      | (TimerFired, w') \<Rightarrow> (Inl (Error ''Model timeout'' None None), w'))"

text \<open>
  What one run of \<open>executeTask\<close> leaves behind: the returned response or thrown error, the
  state outside, the \<open>activeRequests\<close> map, and (for the statements below, not a variable
  of the source) the candidates whose connector was called, in order, each with the way
  its call settled.
\<close>

record 'w dispatch =
  outcome :: "error + ApiResponse"
  attempted :: "(string \<times> (error + ApiResponse)) list"
  world :: 'w
  active :: "(string \<times> string) list"

text \<open>
  \<open>this.providers\<close> is a plain object (\<open>{}\<close>), so \<open>this.providers[key]\<close> also finds the
  properties the object inherits from \<open>Object.prototype\<close>. Such a value is truthy but is
  not a connector: it passes the test \<open>!provider\<close>, and the call \<open>provider.isConfigured()\<close>
  on it throws a \<open>TypeError\<close>. Own keys shadow inherited ones.
\<close>

definition object_prototype_keys :: "string list" where
  "object_prototype_keys =
     [''constructor'', ''__defineGetter__'', ''__defineSetter__'', ''hasOwnProperty'',
      ''__lookupGetter__'', ''__lookupSetter__'', ''isPrototypeOf'', ''propertyIsEnumerable'',
      ''toString'', ''valueOf'', ''__proto__'', ''toLocaleString'']"

datatype registry_entry = Absent | NotAConnector | Connector BaseApiProvider

definition registry_lookup :: "(string \<times> BaseApiProvider) list \<Rightarrow> string \<Rightarrow> registry_entry" where
  "registry_lookup reg key =
     (case map_of reg key of
        Some p \<Rightarrow> Connector p
      | None \<Rightarrow> if key \<in> set object_prototype_keys then NotAConnector else Absent)"

text \<open>The error of calling \<open>provider.isConfigured()\<close> on a value that has no such method.\<close>

definition not_a_function :: error where
  "not_a_function = Error ''provider.isConfigured is not a function'' None None"

text \<open>
  The loop \<open>for (const modelName of selector.modelPriority)\<close> and the \<open>throw\<close> after it.
  The \<open>TypeError\<close> of an inherited registry key is thrown before the inner \<open>try\<close> and
  leaves the loop. (\<open>this.config.models[modelName]\<close> on an inherited key gives a value
  without \<open>enabled\<close>, which the loop skips like an unknown model, as \<open>None\<close> is here.)
\<close>

fun try_models ::
  "OrchestratorConfig \<Rightarrow> (string \<times> BaseApiProvider) list \<Rightarrow> 'w connector_call \<Rightarrow> string \<Rightarrow>
   AITask \<Rightarrow> bool \<Rightarrow> string list \<Rightarrow> 'w \<Rightarrow> (string \<times> string) list \<Rightarrow> 'w dispatch" where
  "try_models cfg reg call taskId task streaming [] w act =
     \<lparr>outcome = Inl (Error (''All models failed for task: '' @ task_type task) None None),
      attempted = [], world = w, active = act\<rparr>"
| "try_models cfg reg call taskId task streaming (modelName # rest) w act =
     (case map_of (models cfg) modelName of
        None \<Rightarrow> try_models cfg reg call taskId task streaming rest w act
      | Some modelConfig \<Rightarrow>
          if \<not> enabled modelConfig then try_models cfg reg call taskId task streaming rest w act
          else
            (case registry_lookup reg (provider modelConfig) of
               Absent \<Rightarrow> try_models cfg reg call taskId task streaming rest w act
             | NotAConnector \<Rightarrow>
                 \<lparr>outcome = Inl not_a_function, attempted = [], world = w, active = act\<rparr>
             | Connector p \<Rightarrow>
                 if \<not> isConfigured p then try_models cfg reg call taskId task streaming rest w act
                 else
                   (case executeWithModel call (provider modelConfig) (modelId modelConfig)
                           task streaming w of
                      (Inr result, w') \<Rightarrow>
                        \<lparr>outcome = Inr result, attempted = [(modelName, Inr result)], world = w',
                         active = AList.delete taskId
                                    (AList.update taskId (provider modelConfig) act)\<rparr>
                    | (Inl e, w') \<Rightarrow>
                        (let act' = AList.delete taskId
                                      (AList.update taskId (provider modelConfig) act)
                         in if fallbackBehavior cfg = FallbackAlternative then
                              (let r = try_models cfg reg call taskId task streaming rest w' act'
                               in r\<lparr>attempted := (modelName, Inl e) # attempted r\<rparr>)
                            else if fallbackBehavior cfg = FallbackError then
                              \<lparr>outcome = Inl e, attempted = [(modelName, Inl e)], world = w',
                               active = act'\<rparr>
                            else
                              (let r = try_models cfg reg call taskId task streaming rest w' act'
                               in r\<lparr>attempted := (modelName, Inl e) # attempted r\<rparr>)))))"

text \<open>
  \<open>executeTask\<close>. \<open>taskId\<close> is the generated task id; \<open>streaming\<close> tells whether a
  \<open>streamCallback\<close> was passed. The outer \<open>catch\<close> deletes the task id once more before it
  rethrows.
\<close>

definition executeTask ::
  "ModelOrchestrator \<Rightarrow> 'w connector_call \<Rightarrow> string \<Rightarrow> AITask \<Rightarrow> bool \<Rightarrow> 'w \<Rightarrow> 'w dispatch" where
  "executeTask orch call taskId task streaming w =
     (case find_selector orch task of
        None \<Rightarrow>
          \<lparr>outcome = Inl (Error (''No model selector available for task: '' @ task_type task)
                             None None),
           attempted = [], world = w, active = AList.delete taskId (activeRequests orch)\<rparr>
      | Some selector \<Rightarrow>
          (let r = try_models (orch_config orch) (registry orch) call taskId task streaming
                     (modelPriority selector) w (activeRequests orch)
           in case outcome r of
                Inl e \<Rightarrow> r\<lparr>active := AList.delete taskId (active r)\<rparr>
              | Inr result \<Rightarrow> r))"

text \<open>
  Whether the loop skips a candidate (\<open>continue\<close> before the \<open>try\<close>): the model is unknown
  or disabled, or its connector is missing from the registry or not configured.
\<close>

definition skipped :: "OrchestratorConfig \<Rightarrow> (string \<times> BaseApiProvider) list \<Rightarrow> string \<Rightarrow> bool" where
  "skipped cfg reg modelName =
     (case map_of (models cfg) modelName of
        None \<Rightarrow> True
      | Some modelConfig \<Rightarrow>
          \<not> enabled modelConfig \<or>
          (case registry_lookup reg (provider modelConfig) of
             Absent \<Rightarrow> True
           | NotAConnector \<Rightarrow> False
           | Connector p \<Rightarrow> \<not> isConfigured p))"

text \<open>
  Whether the loop reaches the \<open>try\<close> for a candidate and calls its connector:
  \<open>modelConfig\<close> is the enabled model of that name and its connector is configured.
\<close>

definition called :: "OrchestratorConfig \<Rightarrow> (string \<times> BaseApiProvider) list \<Rightarrow> string \<Rightarrow> ModelConfig \<Rightarrow> bool" where
  "called cfg reg modelName modelConfig =
     (map_of (models cfg) modelName = Some modelConfig \<and> enabled modelConfig \<and>
      (case registry_lookup reg (provider modelConfig) of
         Absent \<Rightarrow> False
       | NotAConnector \<Rightarrow> False
       | Connector p \<Rightarrow> isConfigured p))"

subsection \<open>Introspection\<close>

text \<open>The type \<open>ModelConfig & { available: boolean }\<close>.\<close>

record AvailableModel = ModelConfig +
  available :: bool

definition with_available :: "ModelConfig \<Rightarrow> bool \<Rightarrow> AvailableModel" where
  "with_available m a =
     \<lparr>provider = provider m, modelId = modelId m, enabled = enabled m, priority = priority m,
      capabilities = capabilities m, contextWindow = contextWindow m, available = a\<rparr>"

text \<open>
  \<open>getModels\<close>, as the entries of the object it returns. The loop evaluates
  \<open>!!provider && provider.isConfigured()\<close> for every configured model; on an inherited
  registry key that call throws, and so does \<open>getModels\<close>.
\<close>

fun getModels_loop ::
  "(string \<times> BaseApiProvider) list \<Rightarrow> (string \<times> ModelConfig) list \<Rightarrow>
   error + (string \<times> AvailableModel) list" where
  "getModels_loop reg [] = Inr []"
| "getModels_loop reg ((name, modelConfig) # rest) =
     (case registry_lookup reg (provider modelConfig) of
        NotAConnector \<Rightarrow> Inl not_a_function
      | Absent \<Rightarrow>
          (case getModels_loop reg rest of
             Inl e \<Rightarrow> Inl e
           | Inr result \<Rightarrow> Inr ((name, with_available modelConfig False) # result))
      | Connector p \<Rightarrow>
          (case getModels_loop reg rest of
             Inl e \<Rightarrow> Inl e
           | Inr result \<Rightarrow> Inr ((name, with_available modelConfig (isConfigured p)) # result)))"

definition getModels :: "ModelOrchestrator \<Rightarrow> error + (string \<times> AvailableModel) list" where
  "getModels orch = getModels_loop (registry orch) (models (orch_config orch))"

text \<open>
  \<open>getModelsByCapability\<close>. \<open>Array.prototype.sort\<close> with the comparator
  \<open>(a, b) => b.priority - a.priority\<close> is a stable sort by descending priority; \<open>sort_key\<close>
  is the stable insertion sort of the list library.
\<close>

definition getModelsByCapability :: "ModelOrchestrator \<Rightarrow> string \<Rightarrow> error + AvailableModel list" where
  "getModelsByCapability orch capability =
     (case getModels orch of
        Inl e \<Rightarrow> Inl e
      | Inr entries \<Rightarrow>
          Inr (sort_key (\<lambda>model. - priority model)
                 (map snd
                    (filter (\<lambda>(name, model). capability \<in> set (capabilities model) \<and> available model)
                       entries))))"

section \<open>The streaming decoders (OpenAIProvider.streamingChat, AnthropicProvider.streamingChat)\<close>

text \<open>
  Both connectors decode the response body inside \<open>new Promise((resolve, reject) => ...)\<close>
  with three handlers on the stream: \<open>'data'\<close>, \<open>'end'\<close> and \<open>'error'\<close>. The handlers share
  local variables; below they are the fields of a record, each handler is a function on it,
  and a stream is the list of events the transport delivers. Every invocation of the
  caller's \<open>callback(chunk, done)\<close> is appended to \<open>callbacks\<close>. \<open>settled\<close> is the state of
  the promise: \<open>resolve\<close> and \<open>reject\<close> have no effect once it is settled.

  A string is the list of the bytes of its UTF-8 encoding; \<open>Data chunk\<close> carries the
  text that \<open>chunk.toString()\<close> yields. \<open>JSON.parse\<close> is a parameter of the decoders: \<open>Inl\<close> carries the message of the
  exception it throws, \<open>Inr\<close> the parsed object, typed as the source's interfaces declare.
\<close>

text \<open>
  \<open>String.prototype.trim\<close> removes white space and line terminators at both ends. These
  are their UTF-8 encodings: U+0009 to U+000D, U+0020, U+00A0, U+1680, U+2000 to U+200A,
  U+2028, U+2029, U+202F, U+205F, U+3000 and U+FEFF.
\<close>

definition js_white_space :: "string list" where
  "js_white_space =
     [[CHR 0x09], [CHR 0x0A], [CHR 0x0B], [CHR 0x0C], [CHR 0x0D], [CHR 0x20],
      [CHR 0xC2, CHR 0xA0],
      [CHR 0xE1, CHR 0x9A, CHR 0x80],
      [CHR 0xE2, CHR 0x80, CHR 0x80], [CHR 0xE2, CHR 0x80, CHR 0x81],
      [CHR 0xE2, CHR 0x80, CHR 0x82], [CHR 0xE2, CHR 0x80, CHR 0x83],
      [CHR 0xE2, CHR 0x80, CHR 0x84], [CHR 0xE2, CHR 0x80, CHR 0x85],
      [CHR 0xE2, CHR 0x80, CHR 0x86], [CHR 0xE2, CHR 0x80, CHR 0x87],
      [CHR 0xE2, CHR 0x80, CHR 0x88], [CHR 0xE2, CHR 0x80, CHR 0x89],
      [CHR 0xE2, CHR 0x80, CHR 0x8A],
      [CHR 0xE2, CHR 0x80, CHR 0xA8], [CHR 0xE2, CHR 0x80, CHR 0xA9],
      [CHR 0xE2, CHR 0x80, CHR 0xAF],
      [CHR 0xE2, CHR 0x81, CHR 0x9F],
      [CHR 0xE3, CHR 0x80, CHR 0x80],
      [CHR 0xEF, CHR 0xBB, CHR 0xBF]]"

text \<open>
  \<open>strip_leading ws s\<close> removes from the front of \<open>s\<close> every leading occurrence of one of
  the byte sequences \<open>ws\<close>. Trimming the end is trimming the front of the reversed string
  by the reversed sequences.
\<close>

function strip_leading :: "string list \<Rightarrow> string \<Rightarrow> string" where
  "strip_leading ws s =
     (case find (\<lambda>w. w \<noteq> [] \<and> take (length w) s = w) ws of
        None \<Rightarrow> s
      | Some w \<Rightarrow> strip_leading ws (drop (length w) s))"
  by pat_completeness auto
termination
proof (relation "measure (\<lambda>(ws, s). length s)")
  show "wf (measure (\<lambda>(ws, s). length s))" by simp
next
  fix ws :: "string list" and s w :: string
  assume "find (\<lambda>w. w \<noteq> [] \<and> take (length w) s = w) ws = Some w"
  then have "w \<noteq> []" and "take (length w) s = w"
    by (auto simp: find_Some_iff)
  then have "s \<noteq> []" and "0 < length w" by auto
  then show "((ws, drop (length w) s), (ws, s)) \<in> measure (\<lambda>(ws, s). length s)"
    by simp
qed

definition js_trim :: "string \<Rightarrow> string" where
  "js_trim s =
     rev (strip_leading (map rev js_white_space) (rev (strip_leading js_white_space s)))"

text \<open>\<open>s.split('\n')\<close>: never empty, the last piece is what follows the last newline.\<close>

fun split_newline :: "string \<Rightarrow> string list" where
  "split_newline [] = [[]]"
| "split_newline (c # cs) =
     (if c = CHR 0x0A then [] # split_newline cs
      else (case split_newline cs of [] \<Rightarrow> [[c]] | l # ls \<Rightarrow> (c # l) # ls))"

definition startsWith :: "string \<Rightarrow> string \<Rightarrow> bool" where
  "startsWith s p = (take (length p) s = p)"

text \<open>
  \<open>s.length\<close> counts UTF-16 code units: one for every code point encoded in one to three
  bytes, two for every code point encoded in four. \<open>estimate_tokens\<close> is
  \<open>Math.ceil(s.length / 4)\<close>.
\<close>

definition js_length :: "string \<Rightarrow> nat" where
  "js_length s =
     length (filter (\<lambda>c. (of_char c :: nat) < 0x80 \<or> 0xC0 \<le> (of_char c :: nat)) s)
     + length (filter (\<lambda>c. 0xF0 \<le> (of_char c :: nat)) s)"

definition estimate_tokens :: "string \<Rightarrow> int" where
  "estimate_tokens s = \<lceil>real (js_length s) / 4\<rceil>"

datatype stream_event = Data string | End int | TransportError string

text \<open>
  The variables shared by both decoders. \<open>End now\<close> carries the clock value that
  \<open>updateRateLimitCounters\<close> reads in the \<open>'end'\<close> handler.
\<close>

record StreamLocals =
  buffer :: string
  fullContent :: string
  responseId :: string
  responseModel :: string
  lastFinishReason :: string
  callbacks :: "(string \<times> bool) list"
  settled :: "(error + ApiResponse) option"
  limiter :: RateLimitState

definition callback :: "string \<Rightarrow> bool \<Rightarrow> 'a StreamLocals_scheme \<Rightarrow> 'a StreamLocals_scheme" where
  "callback chunk done st = st\<lparr>callbacks := callbacks st @ [(chunk, done)]\<rparr>"

definition reject :: "error \<Rightarrow> 'a StreamLocals_scheme \<Rightarrow> 'a StreamLocals_scheme" where
  "reject e st = (case settled st of None \<Rightarrow> st\<lparr>settled := Some (Inl e)\<rparr> | Some r \<Rightarrow> st)"

definition resolve :: "ApiResponse \<Rightarrow> 'a StreamLocals_scheme \<Rightarrow> 'a StreamLocals_scheme" where
  "resolve r st = (case settled st of None \<Rightarrow> st\<lparr>settled := Some (Inr r)\<rparr> | Some r' \<Rightarrow> st)"

text \<open>
  The message of the \<open>TypeError\<close> that reading \<open>data.choices[0].delta\<close> throws when
  \<open>choices\<close> is empty (the engine's wording, shortened).
\<close>

definition undefined_read_message :: string where
  "undefined_read_message = ''Cannot read properties of undefined''"

subsection \<open>OpenAI: flat per-token deltas, ended by the line \<open>data: [DONE]\<close>\<close>

record OpenAIChoice =
  delta_content :: "string option"
  finish_reason :: "string option"

record OpenAIStreamChunk =
  chunk_id :: string
  chunk_model :: string
  chunk_created :: real
  choices :: "OpenAIChoice list"

record OpenAILocals = StreamLocals +
  responseCreated :: real

text \<open>
  The part of both OpenAI handlers that follows \<open>JSON.parse\<close> for a line that starts with
  \<open>data: \<close>: it extracts the content, appends it, records a finish reason and calls
  \<open>callback(content, false)\<close>. The second component is the message of an exception thrown.
\<close>

definition openai_delta :: "OpenAIStreamChunk \<Rightarrow> OpenAILocals \<Rightarrow> OpenAILocals \<times> string option" where
  "openai_delta data st =
     (case choices data of
        [] \<Rightarrow> (st, Some undefined_read_message)
      | choice # others \<Rightarrow>
          (let content = (case delta_content choice of None \<Rightarrow> [] | Some c \<Rightarrow> c);
               st1 = st\<lparr>fullContent := fullContent st @ content\<rparr>;
               st2 = (case finish_reason choice of
                        None \<Rightarrow> st1
                      | Some r \<Rightarrow> if r = [] then st1 else st1\<lparr>lastFinishReason := r\<rparr>)
           in (callback content False st2, None)))"

text \<open>The body of the loop \<open>for (const line of lines)\<close> in the \<open>'data'\<close> handler.\<close>

definition openai_line ::
  "(string \<Rightarrow> string + OpenAIStreamChunk) \<Rightarrow> string \<Rightarrow> OpenAILocals \<Rightarrow> OpenAILocals \<times> string option" where
  "openai_line parse line st =
     (if js_trim line = [] then (st, None)
      else if js_trim line = ''data: [DONE]'' then (callback [] True st, None)
      else if startsWith line ''data: '' then
        (case parse (drop 6 line) of
           Inl msg \<Rightarrow> (st, Some msg)
         | Inr data \<Rightarrow>
             openai_delta data
               (if responseId st = [] then
                  st\<lparr>responseId := chunk_id data, responseModel := chunk_model data,
                     responseCreated := chunk_created data\<rparr>
                else st))
      else (st, None))"

text \<open>The loop itself: an exception leaves it.\<close>

fun openai_lines ::
  "(string \<Rightarrow> string + OpenAIStreamChunk) \<Rightarrow> string list \<Rightarrow> OpenAILocals \<Rightarrow> OpenAILocals \<times> string option" where
  "openai_lines parse [] st = (st, None)"
| "openai_lines parse (line # rest) st =
     (case openai_line parse line st of
        (st', Some msg) \<Rightarrow> (st', Some msg)
      | (st', None) \<Rightarrow> openai_lines parse rest st')"

definition openai_on_data ::
  "(string \<Rightarrow> string + OpenAIStreamChunk) \<Rightarrow> string \<Rightarrow> OpenAILocals \<Rightarrow> OpenAILocals" where
  "openai_on_data parse chunk st =
     (let pieces = split_newline (buffer st @ chunk);
          st1 = st\<lparr>buffer := last pieces\<rparr>
      in case openai_lines parse (butlast pieces) st1 of
           (st2, None) \<Rightarrow> st2
         | (st2, Some msg) \<Rightarrow>
             reject (Error msg (Some ''stream_processing_error'') (Some ''unknown'')) st2)"

definition openai_on_end ::
  "(string \<Rightarrow> string + OpenAIStreamChunk) \<Rightarrow> int \<Rightarrow> int \<Rightarrow> OpenAILocals \<Rightarrow> OpenAILocals" where
  "openai_on_end parse estimatedPromptTokens now st =
     (let st1 =
            (if js_trim (buffer st) \<noteq> [] then
               (if js_trim (buffer st) = ''data: [DONE]'' then callback [] True st
                else if startsWith (buffer st) ''data: '' then
                  (case parse (drop 6 (buffer st)) of
                     Inl msg \<Rightarrow> st
                   | Inr data \<Rightarrow>
                       (case openai_delta data st of
                          (st', None) \<Rightarrow> st'
                        | (st', Some msg) \<Rightarrow> st'))
                else st)
             else st);
          st2 = callback [] True st1;
          completionTokens = estimate_tokens (fullContent st2);
          total = estimatedPromptTokens + completionTokens;
          st3 = st2\<lparr>limiter := updateRateLimitCounters total now (limiter st2)\<rparr>
      in resolve
           \<lparr>resp_id = responseId st3, resp_model = responseModel st3, content = fullContent st3,
            promptTokens = estimatedPromptTokens, completionTokens = completionTokens,
            totalTokens = total, finishReason = lastFinishReason st3,
            created = responseCreated st3\<rparr>
           st3)"

definition on_error :: "string \<Rightarrow> 'a StreamLocals_scheme \<Rightarrow> 'a StreamLocals_scheme" where
  "on_error msg st = reject (Error msg (Some ''stream_error'') (Some ''unknown'')) st"

fun openai_handle ::
  "(string \<Rightarrow> string + OpenAIStreamChunk) \<Rightarrow> int \<Rightarrow> stream_event \<Rightarrow> OpenAILocals \<Rightarrow> OpenAILocals" where
  "openai_handle parse estimatedPromptTokens (Data chunk) st = openai_on_data parse chunk st"
| "openai_handle parse estimatedPromptTokens (End now) st =
     openai_on_end parse estimatedPromptTokens now st"
| "openai_handle parse estimatedPromptTokens (TransportError msg) st = on_error msg st"

definition openai_initial :: "RateLimitState \<Rightarrow> OpenAILocals" where
  "openai_initial window =
     \<lparr>buffer = [], fullContent = [], responseId = [], responseModel = [],
      lastFinishReason = [], callbacks = [], settled = None, limiter = window,
      responseCreated = 0\<rparr>"

text \<open>The decoder run over the events of one response, in the order they arrive.\<close>

definition openai_stream ::
  "(string \<Rightarrow> string + OpenAIStreamChunk) \<Rightarrow> int \<Rightarrow> RateLimitState \<Rightarrow> stream_event list \<Rightarrow> OpenAILocals" where
  "openai_stream parse estimatedPromptTokens window events =
     foldl (\<lambda>st ev. openai_handle parse estimatedPromptTokens ev st) (openai_initial window) events"

subsection \<open>Anthropic: structured start / delta / stop events\<close>

record AnthropicUsage =
  input_tokens :: int
  output_tokens :: int

record AnthropicMessage =
  message_id :: string
  message_model :: string
  usage :: "AnthropicUsage option"

text \<open>\<open>stop_reason\<close> is \<open>Some\<close> exactly when \<open>'stop_reason' in data.delta\<close>.\<close>

record AnthropicDelta =
  delta_type :: string
  delta_text :: "string option"
  stop_reason :: "string option"

record AnthropicStreamChunk =
  chunk_type :: string
  chunk_message :: "AnthropicMessage option"
  chunk_delta :: "AnthropicDelta option"

record AnthropicLocals = StreamLocals +
  inputTokens :: int
  outputTokens :: int

text \<open>The condition \<open>data.delta && data.delta.type === 'text' && data.delta.text\<close>.\<close>

definition text_delta :: "AnthropicStreamChunk \<Rightarrow> string option" where
  "text_delta data =
     (case chunk_delta data of
        None \<Rightarrow> None
      | Some d \<Rightarrow>
          if delta_type d = ''text'' then
            (case delta_text d of None \<Rightarrow> None | Some t \<Rightarrow> if t = [] then None else Some t)
          else None)"

definition anthropic_event :: "AnthropicStreamChunk \<Rightarrow> AnthropicLocals \<Rightarrow> AnthropicLocals" where
  "anthropic_event data st =
     (if chunk_type data = ''message_start'' then
        (case chunk_message data of
           None \<Rightarrow> st
         | Some m \<Rightarrow> st\<lparr>responseId := message_id m, responseModel := message_model m\<rparr>)
      else if chunk_type data = ''content_block_start'' then st
      else if chunk_type data = ''content_block_delta'' then
        (case text_delta data of
           None \<Rightarrow> st
         | Some t \<Rightarrow> callback t False (st\<lparr>fullContent := fullContent st @ t\<rparr>))
      else if chunk_type data = ''message_delta'' then
        (case chunk_delta data of
           None \<Rightarrow> st
         | Some d \<Rightarrow> (case stop_reason d of None \<Rightarrow> st | Some r \<Rightarrow> st\<lparr>lastFinishReason := r\<rparr>))
      else if chunk_type data = ''message_stop'' then
        (case chunk_message data of
           None \<Rightarrow> st
         | Some m \<Rightarrow>
             (case usage m of
                None \<Rightarrow> st
              | Some u \<Rightarrow> st\<lparr>inputTokens := input_tokens u, outputTokens := output_tokens u\<rparr>))
      else st)"

definition anthropic_line ::
  "(string \<Rightarrow> string + AnthropicStreamChunk) \<Rightarrow> string \<Rightarrow> AnthropicLocals \<Rightarrow>
   AnthropicLocals \<times> string option" where
  "anthropic_line parse line st =
     (if js_trim line = [] \<or> js_trim line = ''data: '' then (st, None)
      else if js_trim line = ''data: [DONE]'' then (callback [] True st, None)
      else if startsWith line ''data: '' then
        (case parse (drop 6 line) of
           Inl msg \<Rightarrow> (st, Some msg)
         | Inr data \<Rightarrow> (anthropic_event data st, None))
      else (st, None))"

fun anthropic_lines ::
  "(string \<Rightarrow> string + AnthropicStreamChunk) \<Rightarrow> string list \<Rightarrow> AnthropicLocals \<Rightarrow>
   AnthropicLocals \<times> string option" where
  "anthropic_lines parse [] st = (st, None)"
| "anthropic_lines parse (line # rest) st =
     (case anthropic_line parse line st of
        (st', Some msg) \<Rightarrow> (st', Some msg)
      | (st', None) \<Rightarrow> anthropic_lines parse rest st')"

definition anthropic_on_data ::
  "(string \<Rightarrow> string + AnthropicStreamChunk) \<Rightarrow> string \<Rightarrow> AnthropicLocals \<Rightarrow> AnthropicLocals" where
  "anthropic_on_data parse chunk st =
     (let pieces = split_newline (buffer st @ chunk);
          st1 = st\<lparr>buffer := last pieces\<rparr>
      in case anthropic_lines parse (butlast pieces) st1 of
           (st2, None) \<Rightarrow> st2
         | (st2, Some msg) \<Rightarrow>
             reject (Error msg (Some ''stream_processing_error'') (Some ''unknown'')) st2)"

text \<open>
  The \<open>'end'\<close> handler handles only three event types in the left-over buffer, and skips
  a left-over \<open>data: [DONE]\<close>. \<open>created\<close> is \<open>Date.now() / 1000\<close>; the handler's two
  clock reads are taken at the same instant \<open>now\<close>.
\<close>

definition anthropic_final :: "AnthropicStreamChunk \<Rightarrow> AnthropicLocals \<Rightarrow> AnthropicLocals" where
  "anthropic_final data st =
     (if chunk_type data = ''content_block_delta'' \<and> text_delta data \<noteq> None then
        callback (the (text_delta data)) False
          (st\<lparr>fullContent := fullContent st @ the (text_delta data)\<rparr>)
      else if chunk_type data = ''message_delta'' \<and> chunk_delta data \<noteq> None
              \<and> stop_reason (the (chunk_delta data)) \<noteq> None then
        st\<lparr>lastFinishReason := the (stop_reason (the (chunk_delta data)))\<rparr>
      else if chunk_type data = ''message_stop'' \<and> chunk_message data \<noteq> None
              \<and> usage (the (chunk_message data)) \<noteq> None then
        st\<lparr>inputTokens := input_tokens (the (usage (the (chunk_message data)))),
           outputTokens := output_tokens (the (usage (the (chunk_message data))))\<rparr>
      else st)"

definition anthropic_on_end ::
  "(string \<Rightarrow> string + AnthropicStreamChunk) \<Rightarrow> int \<Rightarrow> int \<Rightarrow> AnthropicLocals \<Rightarrow> AnthropicLocals" where
  "anthropic_on_end parse estimatedPromptTokens now st =
     (let st1 =
            (if js_trim (buffer st) \<noteq> [] \<and> js_trim (buffer st) \<noteq> ''data: ''
                \<and> js_trim (buffer st) \<noteq> ''data: [DONE]'' then
               (if startsWith (buffer st) ''data: '' then
                  (case parse (drop 6 (buffer st)) of
                     Inl msg \<Rightarrow> st
                   | Inr data \<Rightarrow> anthropic_final data st)
                else st)
             else st);
          st2 = callback [] True st1;
          st3 = (if inputTokens st2 = 0 then st2\<lparr>inputTokens := estimatedPromptTokens\<rparr> else st2);
          st4 = (if outputTokens st3 = 0
                 then st3\<lparr>outputTokens := estimate_tokens (fullContent st3)\<rparr> else st3);
          total = inputTokens st4 + outputTokens st4;
          st5 = st4\<lparr>limiter := updateRateLimitCounters total now (limiter st4)\<rparr>
      in resolve
           \<lparr>resp_id = responseId st5, resp_model = responseModel st5, content = fullContent st5,
            promptTokens = inputTokens st5, completionTokens = outputTokens st5,
            totalTokens = total, finishReason = lastFinishReason st5,
            created = real_of_int now / 1000\<rparr>
           st5)"

fun anthropic_handle ::
  "(string \<Rightarrow> string + AnthropicStreamChunk) \<Rightarrow> int \<Rightarrow> stream_event \<Rightarrow> AnthropicLocals \<Rightarrow>
   AnthropicLocals" where
  "anthropic_handle parse estimatedPromptTokens (Data chunk) st = anthropic_on_data parse chunk st"
| "anthropic_handle parse estimatedPromptTokens (End now) st =
     anthropic_on_end parse estimatedPromptTokens now st"
| "anthropic_handle parse estimatedPromptTokens (TransportError msg) st = on_error msg st"

definition anthropic_initial :: "RateLimitState \<Rightarrow> AnthropicLocals" where
  "anthropic_initial window =
     \<lparr>buffer = [], fullContent = [], responseId = [], responseModel = [],
      lastFinishReason = [], callbacks = [], settled = None, limiter = window,
      inputTokens = 0, outputTokens = 0\<rparr>"

definition anthropic_stream ::
  "(string \<Rightarrow> string + AnthropicStreamChunk) \<Rightarrow> int \<Rightarrow> RateLimitState \<Rightarrow> stream_event list \<Rightarrow>
   AnthropicLocals" where
  "anthropic_stream parse estimatedPromptTokens window events =
     foldl (\<lambda>st ev. anthropic_handle parse estimatedPromptTokens ev st)
       (anthropic_initial window) events"

text \<open>
  The callback contract: zero or more calls \<open>(text, false)\<close>, then exactly one call
  \<open>(empty, true)\<close>, and nothing after it.
\<close>

definition well_formed_callbacks :: "(string \<times> bool) list \<Rightarrow> bool" where
  "well_formed_callbacks cs =
     (cs \<noteq> [] \<and> last cs = ([], True) \<and> list_all (\<lambda>c. \<not> snd c) (butlast cs))"

text \<open>Fixtures: a connector limited to two requests and to 100000 tokens per minute, a
  connector whose request limit is configured as 0, a connector with the request limit 0
  and a limit of 100 tokens, and a fresh window that started at clock value 0.\<close>

definition limited_config :: ApiProviderConfig where
  "limited_config =
     \<lparr>cfg_id = ''openai'', cfg_enabled = True, cfg_apiKey = Some ''k'',
      rateLimitRPM = Some 2, rateLimitTPM = Some 100000\<rparr>"

definition zero_rpm_config :: ApiProviderConfig where
  "zero_rpm_config =
     \<lparr>cfg_id = ''openai'', cfg_enabled = True, cfg_apiKey = Some ''k'',
      rateLimitRPM = Some 0, rateLimitTPM = Some 100000\<rparr>"

definition token_limited_config :: ApiProviderConfig where
  "token_limited_config =
     \<lparr>cfg_id = ''anthropic'', cfg_enabled = True, cfg_apiKey = Some ''k'',
      rateLimitRPM = Some 0, rateLimitTPM = Some 100\<rparr>"

definition fresh_window :: RateLimitState where
  "fresh_window =
     \<lparr>requestsThisMinute = 0, tokensThisMinute = 0, lastRequestTime = 0, lastResetTime = 0\<rparr>"

text \<open>
  Fixtures for the orchestrator: the \<open>models\<close> and \<open>providers\<close> of the extension's
  \<open>defaultConfig\<close>, connectors whose key has been retrieved, a connector call that replays
  a script of race results (one per call, the timer firing once the script is used up), and
  two tasks.
\<close>

definition default_openai :: ApiProviderConfig where
  "default_openai =
     \<lparr>cfg_id = ''openai'', cfg_enabled = True, cfg_apiKey = None,
      rateLimitRPM = Some 60, rateLimitTPM = Some 100000\<rparr>"

definition default_anthropic :: ApiProviderConfig where
  "default_anthropic =
     \<lparr>cfg_id = ''anthropic'', cfg_enabled = True, cfg_apiKey = None,
      rateLimitRPM = Some 50, rateLimitTPM = Some 100000\<rparr>"

definition default_config :: OrchestratorConfig where
  "default_config =
     \<lparr>models =
        [(''code-specialist'',
          \<lparr>provider = ''openai'', modelId = ''gpt-4'', enabled = True, priority = 10,
           capabilities = [''code-generation'', ''code-explanation'', ''refactoring''],
           contextWindow = 8192\<rparr>),
         (''explanation-specialist'',
          \<lparr>provider = ''anthropic'', modelId = ''claude-3-sonnet'', enabled = True, priority = 8,
           capabilities = [''explanation'', ''documentation'', ''summarization''],
           contextWindow = 100000\<rparr>),
         (''general-purpose'',
          \<lparr>provider = ''openai'', modelId = ''gpt-3.5-turbo'', enabled = True, priority = 5,
           capabilities = [''general-assistance'', ''quick-answers''],
           contextWindow = 4096\<rparr>),
         (''fallback'',
          \<lparr>provider = ''openai'', modelId = ''gpt-3.5-turbo'', enabled = True, priority = 1,
           capabilities = [''fallback-assistance''],
           contextWindow = 4096\<rparr>)],
      timeoutMs = 30000,
      fallbackBehavior = FallbackAlternative,
      providers = [(''openai'', default_openai), (''anthropic'', default_anthropic)]\<rparr>"

definition keyed_connector :: "string \<Rightarrow> ApiProviderConfig \<Rightarrow> BaseApiProvider option" where
  "keyed_connector providerName providerConfig =
     Some \<lparr>provider_config = providerConfig, apiKey = Some ''sk-test'',
           rateLimitState = fresh_window\<rparr>"

definition default_orchestrator :: ModelOrchestrator where
  "default_orchestrator = initialize keyed_connector (new_orchestrator default_config)"

definition scripted_call :: "race list connector_call" where
  "scripted_call providerName opts task streaming script =
     (case script of [] \<Rightarrow> (TimerFired, []) | r # rest \<Rightarrow> (r, rest))"

definition generate_task :: AITask where
  "generate_task = \<lparr>task_type = ''generate'', query = ''write a parser'', options = None\<rparr>"

definition complete_task :: AITask where
  "complete_task = \<lparr>task_type = ''complete'', query = ''finish this loop'', options = None\<rparr>"

definition empty_selector :: TaskSelector where
  "empty_selector =
     \<lparr>selector_name = ''custom'', predicate = (\<lambda>task. True), modelPriority = []\<rparr>"

definition ok_response :: ApiResponse where
  "ok_response =
     \<lparr>resp_id = ''r1'', resp_model = ''gpt-3.5-turbo'', content = ''done'', promptTokens = 10,
      completionTokens = 2, totalTokens = 12, finishReason = ''stop'', created = 0\<rparr>"

definition strict_config :: OrchestratorConfig where
  "strict_config =
     default_config
       \<lparr>models :=
          (''code-specialist'',
           \<lparr>provider = ''openai'', modelId = ''gpt-4'', enabled = False, priority = 10,
            capabilities = [''code-generation'', ''code-explanation'', ''refactoring''],
            contextWindow = 8192\<rparr>) # tl (models default_config),
        fallbackBehavior := FallbackError\<rparr>"

definition strict_orchestrator :: ModelOrchestrator where
  "strict_orchestrator = initialize keyed_connector (new_orchestrator strict_config)"

definition review_selector :: TaskSelector where
  "review_selector =
     \<lparr>selector_name = ''review'', predicate = (\<lambda>task. task_type task = ''review''),
      modelPriority = [''explanation-specialist'']\<rparr>"

definition tuned_task :: AITask where
  "tuned_task =
     \<lparr>task_type = ''generate'', query = ''write a parser'',
      options = Some \<lparr>temperature = Some 0.9, maxTokens = None, stream = None\<rparr>\<rparr>"

definition chat_small :: ModelConfig where
  "chat_small =
     \<lparr>provider = ''openai'', modelId = ''gpt-3.5-turbo'', enabled = True, priority = 5,
      capabilities = [''chat''], contextWindow = 4096\<rparr>"

definition chat_large :: ModelConfig where
  "chat_large =
     \<lparr>provider = ''anthropic'', modelId = ''claude-3-opus'', enabled = True, priority = 10,
      capabilities = [''chat'', ''code''], contextWindow = 200000\<rparr>"

definition code_only :: ModelConfig where
  "code_only =
     \<lparr>provider = ''openai'', modelId = ''gpt-4'', enabled = True, priority = 7,
      capabilities = [''code''], contextWindow = 8192\<rparr>"

definition chat_orphan :: ModelConfig where
  "chat_orphan =
     \<lparr>provider = ''mistral'', modelId = ''mistral-large'', enabled = True, priority = 8,
      capabilities = [''chat''], contextWindow = 32000\<rparr>"

definition chat_orchestrator :: ModelOrchestrator where
  "chat_orchestrator =
     default_orchestrator
       \<lparr>orch_config := default_config
          \<lparr>models := [(''small'', chat_small), (''large'', chat_large), (''coder'', code_only),
                      (''orphan'', chat_orphan)]\<rparr>\<rparr>"

definition chat_odd :: ModelConfig where
  "chat_odd =
     \<lparr>provider = ''constructor'', modelId = ''gpt-4'', enabled = True, priority = 9,
      capabilities = [''chat''], contextWindow = 8192\<rparr>"

definition inherited_key_orchestrator :: ModelOrchestrator where
  "inherited_key_orchestrator =
     default_orchestrator
       \<lparr>orch_config := default_config
          \<lparr>models := [(''small'', chat_small), (''large'', chat_large), (''odd'', chat_odd)]\<rparr>\<rparr>"

text \<open>
  Fixtures for the decoders: the wire lines of a response that streams "He", "llo", "!"
  and then stops, in each connector's framing, and a stand-in for \<open>JSON.parse\<close> that knows
  the payloads of these lines and throws on any other text.
\<close>

definition openai_delta_chunk :: "string \<Rightarrow> OpenAIStreamChunk" where
  "openai_delta_chunk text =
     \<lparr>chunk_id = ''chatcmpl-1'', chunk_model = ''gpt-4'', chunk_created = 1700000000,
      choices = [\<lparr>delta_content = Some text, finish_reason = None\<rparr>]\<rparr>"

definition openai_parse :: "string \<Rightarrow> string + OpenAIStreamChunk" where
  \<open>openai_parse payload =
     (if payload = ''{"id":"chatcmpl-1","model":"gpt-4","created":1700000000,"choices":[{"delta":{"content":"He"}}]}''
        then Inr (openai_delta_chunk ''He'')
      else if payload = ''{"id":"chatcmpl-1","model":"gpt-4","created":1700000000,"choices":[{"delta":{"content":"llo"}}]}''
        then Inr (openai_delta_chunk ''llo'')
      else if payload = ''{"id":"chatcmpl-1","model":"gpt-4","created":1700000000,"choices":[{"delta":{"content":"!"}}]}''
        then Inr (openai_delta_chunk ''!'')
      else Inl ''Unexpected token'')\<close>

definition openai_hello_events :: "stream_event list" where
  \<open>openai_hello_events =
     [Data ''data: {"id":"chatcmpl-1","model":"gpt-4","created":1700000000,"choices":[{"delta":{"content":"He"}}]}\<newline>\<newline>'',
      Data ''data: {"id":"chatcmpl-1","model":"gpt-4","created":1700000000,"choices":[{"delta":{"content":"llo"}}]}\<newline>\<newline>'',
      Data ''data: {"id":"chatcmpl-1","model":"gpt-4","created":1700000000,"choices":[{"delta":{"content":"!"}}]}\<newline>\<newline>'',
      Data ''data: [DONE]\<newline>\<newline>'',
      End 5000]\<close>

definition anthropic_text_chunk :: "string \<Rightarrow> AnthropicStreamChunk" where
  "anthropic_text_chunk text =
     \<lparr>chunk_type = ''content_block_delta'', chunk_message = None,
      chunk_delta = Some \<lparr>delta_type = ''text'', delta_text = Some text, stop_reason = None\<rparr>\<rparr>"

definition anthropic_parse :: "string \<Rightarrow> string + AnthropicStreamChunk" where
  \<open>anthropic_parse payload =
     (if payload = ''{"type":"message_start","message":{"id":"msg_1","model":"claude-3-sonnet"}}''
        then Inr \<lparr>chunk_type = ''message_start'',
                  chunk_message = Some \<lparr>message_id = ''msg_1'', message_model = ''claude-3-sonnet'',
                                        usage = None\<rparr>,
                  chunk_delta = None\<rparr>
      else if payload = ''{"type":"content_block_delta","delta":{"type":"text","text":"He"}}''
        then Inr (anthropic_text_chunk ''He'')
      else if payload = ''{"type":"content_block_delta","delta":{"type":"text","text":"llo"}}''
        then Inr (anthropic_text_chunk ''llo'')
      else if payload = ''{"type":"content_block_delta","delta":{"type":"text","text":"!"}}''
        then Inr (anthropic_text_chunk ''!'')
      else if payload = ''{"type":"message_stop"}''
        then Inr \<lparr>chunk_type = ''message_stop'', chunk_message = None, chunk_delta = None\<rparr>
      else Inl ''Unexpected token'')\<close>

definition anthropic_hello_events :: "stream_event list" where
  \<open>anthropic_hello_events =
     [Data ''data: {"type":"message_start","message":{"id":"msg_1","model":"claude-3-sonnet"}}\<newline>\<newline>'',
      Data ''data: {"type":"content_block_delta","delta":{"type":"text","text":"He"}}\<newline>\<newline>'',
      Data ''data: {"type":"content_block_delta","delta":{"type":"text","text":"llo"}}\<newline>\<newline>'',
      Data ''data: {"type":"content_block_delta","delta":{"type":"text","text":"!"}}\<newline>\<newline>'',
      Data ''data: {"type":"message_stop"}\<newline>\<newline>'',
      End 5000]\<close>

section \<open>Verified properties of the rate limiter\<close>

lemma retryAfterSeconds_div: "retryAfterSeconds e = - ((e - 60000) div 1000)"
proof -
  have "\<lceil>real_of_int (60000 - e) / real_of_int 1000\<rceil> = - (- (60000 - e) div 1000)"
    by (rule ceiling_divide_eq_div)
  then show ?thesis by (simp add: retryAfterSeconds_def)
qed

lemma retryAfterSeconds_bounds:
  "0 \<le> e \<Longrightarrow> e < 60000 \<Longrightarrow> 0 < retryAfterSeconds e \<and> retryAfterSeconds e \<le> 60"
  unfolding retryAfterSeconds_div by linarith

lemma checkRateLimit_refines:
  assumes "rateLimitRPM config = Some rpmLimit" and "rpmLimit \<noteq> 0"
    and "rateLimitTPM config = Some tpmLimit" and "tpmLimit \<noteq> 0"
  shows "(verdict_of (fst (checkRateLimit config estimatedTokens now st)),
          window_of (snd (checkRateLimit config estimatedTokens now st)))
         = spec_check rpmLimit tpmLimit estimatedTokens now (window_of st)"
  using assms
  by (auto simp add: checkRateLimit_def spec_check_def window_of_def verdict_of_def
      truthy_num_def Let_def retryAfterSeconds_def)

lemma updateRateLimitCounters_refines:
  "window_of (updateRateLimitCounters tokens now st) = spec_update tokens now (window_of st)"
  by (simp add: updateRateLimitCounters_def spec_update_def window_of_def Let_def)

text \<open>A limit that is unset or 0 is not enforced: inside the window the call is allowed.\<close>

lemma checkRateLimit_unenforced:
  assumes "\<not> truthy_num (rateLimitRPM config)" and "\<not> truthy_num (rateLimitTPM config)"
    and "now - lastResetTime st < 60000"
  shows "checkRateLimit config estimatedTokens now st = (\<lparr>allowed = True, retryAfter = None\<rparr>, st)"
  using assms by (simp add: checkRateLimit_def Let_def)

text \<open>
  C4, as stated, fails: with \<open>rateLimitRPM\<close> configured as 0 the specification's algorithm
  rejects the first request of a window (\<open>0 \<ge> 0\<close>), while the source's guard
  \<open>this.config.rateLimitRPM && ...\<close> reads 0 as "no limit" and allows it.
\<close>

theorem checkRateLimit_zero_limit_counterexample:
  "verdict_of (fst (checkRateLimit zero_rpm_config 10 1000 fresh_window)) = Allow
   \<and> fst (spec_check 0 100000 10 1000 (window_of fresh_window)) = Reject 59"
  by (simp add: checkRateLimit_def spec_check_def window_of_def verdict_of_def truthy_num_def
      Let_def zero_rpm_config_def fresh_window_def)

lemma spec_check_optional_both:
  "spec_check_optional (Some rpmLimit) (Some tpmLimit) estimatedTokens now w
     = spec_check rpmLimit tpmLimit estimatedTokens now w"
  by (simp add: spec_check_optional_def spec_check_def Let_def)

lemma checkRateLimit_refines_optional:
  "(verdict_of (fst (checkRateLimit config estimatedTokens now st)),
    window_of (snd (checkRateLimit config estimatedTokens now st)))
   = spec_check_optional (enforced (rateLimitRPM config)) (enforced (rateLimitTPM config))
       estimatedTokens now (window_of st)"
  by (auto simp add: checkRateLimit_def spec_check_optional_def window_of_def verdict_of_def
      truthy_num_def enforced_def Let_def retryAfterSeconds_def split: option.splits)

text \<open>
  C4 (amended): the per-connector rate limiter implements exactly this algorithm, with
  each of the two limits in force only when it is configured and is not 0.
  \<open>check(estimatedTokens)\<close> resets the counters and allows when at least 60000 ms have
  elapsed since the window start; otherwise it rejects with
  \<open>retryAfter = ceil((60000 - elapsed) / 1000)\<close> when the request limit is in force and
  \<open>requestsThisWindow >= rpmLimit\<close>, or the token limit is in force and
  \<open>tokensThisWindow + estimatedTokens > tpmLimit\<close>, and allows otherwise (with both limits
  in force this is the algorithm as first stated). \<open>update(actualTokens)\<close> increments the
  request and token counters when the window has not rolled over, and resets the window
  setting requests to 1 and tokens to \<open>actualTokens\<close> when it has.
\<close>

theorem checkRateLimit_implements_spec_algorithm:
  "verdict_of (fst (checkRateLimit config estimatedTokens now st))
     = fst (spec_check_optional (enforced (rateLimitRPM config)) (enforced (rateLimitTPM config))
              estimatedTokens now (window_of st))
   \<and> window_of (snd (checkRateLimit config estimatedTokens now st))
     = snd (spec_check_optional (enforced (rateLimitRPM config)) (enforced (rateLimitTPM config))
              estimatedTokens now (window_of st))
   \<and> spec_check_optional (Some rpmLimit) (Some tpmLimit) estimatedTokens now w
     = spec_check rpmLimit tpmLimit estimatedTokens now w
   \<and> enforced None = None \<and> enforced (Some 0) = None
   \<and> enforced (Some rpmLimit) = (if rpmLimit = 0 then None else Some rpmLimit)
   \<and> window_of (updateRateLimitCounters actualTokens later st)
     = spec_update actualTokens later (window_of st)"
proof -
  have "(verdict_of (fst (checkRateLimit config estimatedTokens now st)),
          window_of (snd (checkRateLimit config estimatedTokens now st)))
         = spec_check_optional (enforced (rateLimitRPM config)) (enforced (rateLimitTPM config))
             estimatedTokens now (window_of st)"
    by (rule checkRateLimit_refines_optional)
  then have "verdict_of (fst (checkRateLimit config estimatedTokens now st))
     = fst (spec_check_optional (enforced (rateLimitRPM config)) (enforced (rateLimitTPM config))
              estimatedTokens now (window_of st))"
    and "window_of (snd (checkRateLimit config estimatedTokens now st))
     = snd (spec_check_optional (enforced (rateLimitRPM config)) (enforced (rateLimitTPM config))
              estimatedTokens now (window_of st))"
    by (metis fst_conv, metis snd_conv)
  then show ?thesis
    by (simp add: updateRateLimitCounters_refines spec_check_optional_both enforced_def)
qed

theorem checkRateLimit_implements_spec_algorithm_witness:
  "verdict_of (fst (checkRateLimit limited_config 10 1000
      (fresh_window\<lparr>requestsThisMinute := 2\<rparr>))) = Reject 59
   \<and> window_of (snd (checkRateLimit limited_config 10 1000
      (fresh_window\<lparr>requestsThisMinute := 2\<rparr>)))
       = \<lparr>requestsThisWindow = 2, tokensThisWindow = 0, windowStart = 0\<rparr>
   \<and> verdict_of (fst (checkRateLimit token_limited_config 10 1000
      (fresh_window\<lparr>requestsThisMinute := 7, tokensThisMinute := 95\<rparr>))) = Reject 59
   \<and> verdict_of (fst (checkRateLimit token_limited_config 5 1000
      (fresh_window\<lparr>requestsThisMinute := 7, tokensThisMinute := 95\<rparr>))) = Allow
   \<and> window_of (updateRateLimitCounters 7 2000 (fresh_window\<lparr>requestsThisMinute := 2\<rparr>))
       = \<lparr>requestsThisWindow = 3, tokensThisWindow = 7, windowStart = 0\<rparr>"
proof -
  note a = checkRateLimit_implements_spec_algorithm
    [of limited_config 10 1000 "fresh_window\<lparr>requestsThisMinute := 2\<rparr>" 2 100000
        "window_of fresh_window" 7 2000]
  note b = checkRateLimit_implements_spec_algorithm
    [of token_limited_config 10 1000
        "fresh_window\<lparr>requestsThisMinute := 7, tokensThisMinute := 95\<rparr>" 2 100000
        "window_of fresh_window" 7 2000]
  note c = checkRateLimit_implements_spec_algorithm
    [of token_limited_config 5 1000
        "fresh_window\<lparr>requestsThisMinute := 7, tokensThisMinute := 95\<rparr>" 2 100000
        "window_of fresh_window" 7 2000]
  from a b c show ?thesis
    by (simp add: spec_check_optional_def spec_update_def window_of_def fresh_window_def
        enforced_def limited_config_def token_limited_config_def Let_def)
qed

lemma limiter_step_in_window:
  assumes "in_window (lastResetTime st) (call_time c)"
  shows "lastResetTime (limiter_step config c st) = lastResetTime st
     \<and> requestsThisMinute (limiter_step config c st)
         = requestsThisMinute st + (if is_update c then 1 else 0)"
  using assms
  by (cases c) (auto simp: in_window_def checkRateLimit_def updateRateLimitCounters_def Let_def)

lemma run_limiter_in_window:
  "\<forall>c \<in> set cs. in_window (lastResetTime st) (call_time c) \<Longrightarrow>
   lastResetTime (run_limiter config cs st) = lastResetTime st
     \<and> requestsThisMinute (run_limiter config cs st)
         = requestsThisMinute st + int (length (filter is_update cs))"
proof (induction cs arbitrary: st)
  case Nil
  then show ?case by simp
next
  case (Cons c cs)
  from Cons.prems have c: "in_window (lastResetTime st) (call_time c)" by simp
  note s = limiter_step_in_window[OF c, of config]
  from Cons.prems s
  have "\<forall>d \<in> set cs. in_window (lastResetTime (limiter_step config c st)) (call_time d)"
    by simp
  from Cons.IH[OF this] s show ?case by simp
qed

lemma checkRateLimit_rejects_at_limit:
  assumes "rateLimitRPM config = Some N" and "1 \<le> N" and "requestsThisMinute st \<ge> N"
    and "in_window (lastResetTime st) now"
  shows "fst (checkRateLimit config estimatedTokens now st)
      = \<lparr>allowed = False, retryAfter = Some (retryAfterSeconds (now - lastResetTime st))\<rparr>"
  using assms by (auto simp: checkRateLimit_def Let_def truthy_num_def in_window_def)

lemma checkRateLimit_after_rollover:
  assumes "lastResetTime st + 60000 \<le> now"
  shows "allowed (fst (checkRateLimit config estimatedTokens now st))
    \<and> requestsThisMinute (snd (checkRateLimit config estimatedTokens now st)) = 0
    \<and> tokensThisMinute (snd (checkRateLimit config estimatedTokens now st)) = 0
    \<and> requestsThisMinute (updateRateLimitCounters tokens later
          (snd (checkRateLimit config estimatedTokens now st))) = 1
    \<and> tokensThisMinute (updateRateLimitCounters tokens later
          (snd (checkRateLimit config estimatedTokens now st))) = tokens"
  using assms by (auto simp: checkRateLimit_def Let_def updateRateLimitCounters_def)

text \<open>
  C5, as stated, fails for \<open>N = 0\<close>: a connector configured with \<open>rateLimitRPM = 0\<close> has its
  first check of a window allowed, since the source reads the limit 0 as "no limit".
\<close>

theorem rpm_limit_zero_counterexample:
  "rateLimitRPM zero_rpm_config = Some 0
   \<and> length (filter is_update []) = 0
   \<and> allowed (fst (checkRateLimit zero_rpm_config 10 1000
        (run_limiter zero_rpm_config [] fresh_window)))"
  by (simp add: checkRateLimit_def truthy_num_def Let_def zero_rpm_config_def fresh_window_def)

text \<open>
  C5 (amended): for a connector configured with \<open>rpmLimit = N\<close>, \<open>N \<ge> 1\<close>, after \<open>N\<close>
  completed calls (each counted by \<open>update\<close>) in a fresh window, the next \<open>check\<close> inside
  the same 60-second window is rejected with \<open>0 < retryAfter \<le> 60\<close>; once the window has
  rolled over the next \<open>check\<close> succeeds with both counters reset, and after that call's
  \<open>update\<close> the counters are 1 request and that call's tokens.
\<close>

theorem rpm_limit_rejects_next_check:
  assumes "rateLimitRPM config = Some N" and "1 \<le> N"
    and "requestsThisMinute st0 = 0"
    and "\<forall>c \<in> set cs. in_window (lastResetTime st0) (call_time c)"
    and "int (length (filter is_update cs)) = N"
    and "in_window (lastResetTime st0) now"
    and "lastResetTime st0 + 60000 \<le> rolled"
  shows "(\<exists>r. fst (checkRateLimit config estimatedTokens now (run_limiter config cs st0))
                = \<lparr>allowed = False, retryAfter = Some r\<rparr> \<and> 0 < r \<and> r \<le> 60)
     \<and> allowed (fst (checkRateLimit config estimatedTokens rolled (run_limiter config cs st0)))
     \<and> requestsThisMinute (updateRateLimitCounters tokens later
          (snd (checkRateLimit config estimatedTokens rolled (run_limiter config cs st0)))) = 1
     \<and> tokensThisMinute (updateRateLimitCounters tokens later
          (snd (checkRateLimit config estimatedTokens rolled (run_limiter config cs st0)))) = tokens"
proof -
  let ?st = "run_limiter config cs st0"
  from run_limiter_in_window[OF assms(4), of config] assms(3,5)
  have a: "lastResetTime ?st = lastResetTime st0" and b: "requestsThisMinute ?st = N"
    by simp_all
  from assms(6) a have w: "in_window (lastResetTime ?st) now" by simp
  from b have "requestsThisMinute ?st \<ge> N" by simp
  from checkRateLimit_rejects_at_limit[OF assms(1,2) this w]
  have "fst (checkRateLimit config estimatedTokens now ?st)
      = \<lparr>allowed = False, retryAfter = Some (retryAfterSeconds (now - lastResetTime ?st))\<rparr>" .
  moreover from w have "0 < retryAfterSeconds (now - lastResetTime ?st)
      \<and> retryAfterSeconds (now - lastResetTime ?st) \<le> 60"
    by (intro retryAfterSeconds_bounds) (auto simp: in_window_def)
  ultimately have first: "\<exists>r. fst (checkRateLimit config estimatedTokens now ?st)
                = \<lparr>allowed = False, retryAfter = Some r\<rparr> \<and> 0 < r \<and> r \<le> 60"
    by blast
  from assms(7) a have "lastResetTime ?st + 60000 \<le> rolled" by simp
  from checkRateLimit_after_rollover[OF this, of config estimatedTokens tokens later] first
  show ?thesis by simp
qed

theorem rpm_limit_rejects_next_check_witness:
  "fst (checkRateLimit limited_config 10 500
      (run_limiter limited_config [Check 10 100, Update 12 200, Check 10 300, Update 9 400]
         fresh_window))
     = \<lparr>allowed = False, retryAfter = Some 60\<rparr>
   \<and> allowed (fst (checkRateLimit limited_config 10 60000
      (run_limiter limited_config [Check 10 100, Update 12 200, Check 10 300, Update 9 400]
         fresh_window)))
   \<and> requestsThisMinute (updateRateLimitCounters 33 60500
        (snd (checkRateLimit limited_config 10 60000
          (run_limiter limited_config [Check 10 100, Update 12 200, Check 10 300, Update 9 400]
             fresh_window)))) = 1
   \<and> tokensThisMinute (updateRateLimitCounters 33 60500
        (snd (checkRateLimit limited_config 10 60000
          (run_limiter limited_config [Check 10 100, Update 12 200, Check 10 300, Update 9 400]
             fresh_window)))) = 33"
proof -
  let ?cs = "[Check 10 100, Update 12 200, Check 10 300, Update 9 400]"
  have h1: "rateLimitRPM limited_config = Some 2" by (simp add: limited_config_def)
  have h2: "(1::int) \<le> 2" by simp
  have h3: "requestsThisMinute fresh_window = 0" by (simp add: fresh_window_def)
  have h4: "\<forall>c \<in> set ?cs. in_window (lastResetTime fresh_window) (call_time c)"
    by (simp add: in_window_def fresh_window_def)
  have h5: "int (length (filter is_update ?cs)) = 2" by simp
  have h6: "in_window (lastResetTime fresh_window) 500"
    by (simp add: in_window_def fresh_window_def)
  have h7: "lastResetTime fresh_window + 60000 \<le> 60000" by (simp add: fresh_window_def)
  from rpm_limit_rejects_next_check[OF h1 h2 h3 h4 h5 h6 h7, of 10 33 60500]
  have main: "(\<exists>r. fst (checkRateLimit limited_config 10 500 (run_limiter limited_config ?cs fresh_window))
                = \<lparr>allowed = False, retryAfter = Some r\<rparr> \<and> 0 < r \<and> r \<le> 60)
     \<and> allowed (fst (checkRateLimit limited_config 10 60000 (run_limiter limited_config ?cs fresh_window)))
     \<and> requestsThisMinute (updateRateLimitCounters 33 60500
          (snd (checkRateLimit limited_config 10 60000 (run_limiter limited_config ?cs fresh_window)))) = 1
     \<and> tokensThisMinute (updateRateLimitCounters 33 60500
          (snd (checkRateLimit limited_config 10 60000 (run_limiter limited_config ?cs fresh_window)))) = 33" .
  have "fst (checkRateLimit limited_config 10 500 (run_limiter limited_config ?cs fresh_window))
     = \<lparr>allowed = False, retryAfter = Some 60\<rparr>"
    by (simp add: checkRateLimit_def updateRateLimitCounters_def truthy_num_def Let_def
        limited_config_def fresh_window_def retryAfterSeconds_div)
  with main show ?thesis by simp
qed

text \<open>
  C10: a call of \<open>checkRateLimit\<close> that rejects leaves the window state exactly as it was:
  \<open>requestsThisMinute\<close>, \<open>tokensThisMinute\<close>, \<open>lastRequestTime\<close> and \<open>lastResetTime\<close> are
  all unchanged.
\<close>

theorem checkRateLimit_reject_keeps_state:
  assumes "allowed (fst (checkRateLimit config estimatedTokens now st)) = False"
  shows "snd (checkRateLimit config estimatedTokens now st) = st"
  using assms by (simp add: checkRateLimit_def Let_def split: if_splits)

theorem checkRateLimit_reject_keeps_state_witness:
  "allowed (fst (checkRateLimit limited_config 10 1000
      (fresh_window\<lparr>requestsThisMinute := 2, tokensThisMinute := 50, lastRequestTime := 900\<rparr>)))
     = False
   \<and> snd (checkRateLimit limited_config 10 1000
      (fresh_window\<lparr>requestsThisMinute := 2, tokensThisMinute := 50, lastRequestTime := 900\<rparr>))
     = \<lparr>requestsThisMinute = 2, tokensThisMinute = 50, lastRequestTime = 900, lastResetTime = 0\<rparr>"
proof -
  let ?st = "fresh_window\<lparr>requestsThisMinute := 2, tokensThisMinute := 50, lastRequestTime := 900\<rparr>"
  have h: "allowed (fst (checkRateLimit limited_config 10 1000 ?st)) = False"
    by (simp add: checkRateLimit_def truthy_num_def Let_def limited_config_def fresh_window_def)
  from checkRateLimit_reject_keeps_state[OF h] h show ?thesis
    by (simp add: fresh_window_def)
qed

section \<open>Verified properties of the dispatch loop\<close>

lemma try_models_retry_alternative:
  "try_models (cfg\<lparr>fallbackBehavior := FallbackRetry\<rparr>) reg call taskId task streaming
     candidates w act
   = try_models (cfg\<lparr>fallbackBehavior := FallbackAlternative\<rparr>) reg call taskId task streaming
     candidates w act"
  by (induction candidates arbitrary: w act)
     (auto split: option.splits prod.splits sum.splits registry_entry.splits simp: Let_def)

lemma try_models_skip:
  "skipped cfg reg m \<Longrightarrow>
   try_models cfg reg call taskId task streaming (m # rest) w act
   = try_models cfg reg call taskId task streaming rest w act"
  by (auto simp: skipped_def split: option.splits registry_entry.splits)

lemma try_models_skip_prefix:
  "\<forall>m \<in> set pre. skipped cfg reg m \<Longrightarrow>
   try_models cfg reg call taskId task streaming (pre @ rest) w act
   = try_models cfg reg call taskId task streaming rest w act"
  by (induction pre) (simp_all add: try_models_skip del: try_models.simps)

lemma called_not_skipped: "called cfg reg m mc \<Longrightarrow> \<not> skipped cfg reg m"
  by (auto simp: called_def skipped_def split: registry_entry.splits)

text \<open>One step of the loop at a candidate whose connector is called.\<close>

lemma try_models_called:
  assumes "called cfg reg m mc"
    and "executeWithModel call (provider mc) (modelId mc) task streaming w = (r, w')"
  shows "try_models cfg reg call taskId task streaming (m # rest) w act
    = (case r of
         Inr result \<Rightarrow>
           \<lparr>outcome = Inr result, attempted = [(m, Inr result)], world = w',
            active = AList.delete taskId (AList.update taskId (provider mc) act)\<rparr>
       | Inl e \<Rightarrow>
           if fallbackBehavior cfg = FallbackError then
             \<lparr>outcome = Inl e, attempted = [(m, Inl e)], world = w',
              active = AList.delete taskId (AList.update taskId (provider mc) act)\<rparr>
           else
             (try_models cfg reg call taskId task streaming rest w'
                (AList.delete taskId (AList.update taskId (provider mc) act)))
             \<lparr>attempted := (m, Inl e) #
                attempted (try_models cfg reg call taskId task streaming rest w'
                  (AList.delete taskId (AList.update taskId (provider mc) act)))\<rparr>)"
  using assms
  by (auto simp: called_def Let_def split: registry_entry.splits sum.splits)

lemma try_models_error_stops:
  assumes "fallbackBehavior cfg = FallbackError"
    and "called cfg reg m mc"
    and "executeWithModel call (provider mc) (modelId mc) task streaming w = (Inl e, w')"
  shows "try_models cfg reg call taskId task streaming (m # rest) w act
    = \<lparr>outcome = Inl e, attempted = [(m, Inl e)], world = w',
       active = AList.delete taskId (AList.update taskId (provider mc) act)\<rparr>"
  using try_models_called[OF assms(2,3)] assms(1) by simp

text \<open>
  The loop run to its end: when every candidate is skipped or called, every call that was
  made failed, and a call was made only under a policy other than "error", the loop ends
  in the terminal error after calling every candidate it did not skip.
\<close>

lemma try_models_exhausted:
  assumes "\<forall>m \<in> set candidates. skipped cfg reg m \<or> (\<exists>mc. called cfg reg m mc)"
    and "\<forall>c \<in> set (attempted (try_models cfg reg call taskId task streaming candidates w act)).
           isl (snd c)"
    and "fallbackBehavior cfg = FallbackError \<longrightarrow>
           attempted (try_models cfg reg call taskId task streaming candidates w act) = []"
  shows "outcome (try_models cfg reg call taskId task streaming candidates w act)
     = Inl (Error (''All models failed for task: '' @ task_type task) None None)
   \<and> map fst (attempted (try_models cfg reg call taskId task streaming candidates w act))
     = filter (\<lambda>m. \<not> skipped cfg reg m) candidates"
  using assms
proof (induction candidates arbitrary: w act)
  case Nil
  then show ?case by simp
next
  case (Cons m rest)
  from Cons.prems(1) have rest: "\<forall>m \<in> set rest. skipped cfg reg m \<or> (\<exists>mc. called cfg reg m mc)"
    by simp
  show ?case
  proof (cases "skipped cfg reg m")
    case True
    have eq: "try_models cfg reg call taskId task streaming (m # rest) w act
      = try_models cfg reg call taskId task streaming rest w act"
      using True by (rule try_models_skip)
    from Cons.IH[OF rest, of w act] Cons.prems(2,3) True show ?thesis
      unfolding eq by simp
  next
    case False
    with Cons.prems(1) obtain mc where mc: "called cfg reg m mc" by auto
    obtain r w1 where ex: "executeWithModel call (provider mc) (modelId mc) task streaming w = (r, w1)"
      by (cases "executeWithModel call (provider mc) (modelId mc) task streaming w")
    let ?act = "AList.delete taskId (AList.update taskId (provider mc) act)"
    show ?thesis
    proof (cases r)
      case (Inr result)
      with try_models_called[OF mc ex, of taskId rest act] Cons.prems(2)
      show ?thesis by simp
    next
      case (Inl e)
      show ?thesis
      proof (cases "fallbackBehavior cfg = FallbackError")
        case True
        with Inl try_models_called[OF mc ex, of taskId rest act] Cons.prems(3)
        show ?thesis by simp
      next
        case pol: False
        from Inl pol try_models_called[OF mc ex, of taskId rest act]
        have eq: "try_models cfg reg call taskId task streaming (m # rest) w act
          = (try_models cfg reg call taskId task streaming rest w1 ?act)
              \<lparr>attempted := (m, Inl e) #
                 attempted (try_models cfg reg call taskId task streaming rest w1 ?act)\<rparr>"
          by simp
        from Cons.prems(2) have
          "\<forall>c \<in> set (attempted (try_models cfg reg call taskId task streaming rest w1 ?act)).
             isl (snd c)"
          unfolding eq by simp
        from Cons.IH[OF rest this] pol False show ?thesis
          unfolding eq by simp
      qed
    qed
  qed
qed

text \<open>
  The trace and the outcome agree: a run returns a response exactly when its last call
  succeeded with it, and every call before the last one failed.
\<close>

lemma try_models_success_trace:
  "(outcome (try_models cfg reg call taskId task streaming candidates w act) = Inr result)
   = (attempted (try_models cfg reg call taskId task streaming candidates w act) \<noteq> []
      \<and> snd (last (attempted (try_models cfg reg call taskId task streaming candidates w act)))
          = Inr result)"
  by (induction candidates arbitrary: w act)
     (auto split: option.splits prod.splits sum.splits registry_entry.splits simp: Let_def)

lemma try_models_failures_before_last:
  "\<forall>c \<in> set (butlast
       (attempted (try_models cfg reg call taskId task streaming candidates w act))).
     isl (snd c)"
  by (induction candidates arbitrary: w act)
     (auto split: option.splits prod.splits sum.splits registry_entry.splits simp: Let_def)

lemmas fixture_defs =
  default_orchestrator_def strict_orchestrator_def default_config_def strict_config_def
  initialize_def initializeProviders_def new_orchestrator_def registerDefaultSelectors_def
  keyed_connector_def default_openai_def default_anthropic_def fresh_window_def
  code_generation_selector_def explanation_selector_def refactoring_selector_def
  testing_selector_def default_selector_def generate_task_def complete_task_def
  find_selector_def isConfigured_def registry_lookup_def Let_def

text \<open>
  A candidate whose provider is a key the registry object inherits is neither skipped nor
  called: \<open>executeTask\<close> throws the \<open>TypeError\<close> at it, under every fallback policy.
\<close>

lemma try_models_inherited_key:
  assumes "map_of (models cfg) m = Some mc" and "enabled mc"
    and "registry_lookup reg (provider mc) = NotAConnector"
  shows "try_models cfg reg call taskId task streaming (m # rest) w act
    = \<lparr>outcome = Inl not_a_function, attempted = [], world = w, active = act\<rparr>"
  using assms by simp

text \<open>
  C2: when the orchestrator's \<open>fallbackBehavior\<close> is "error", the first failure of an
  attempted candidate call is propagated immediately by \<open>executeTask\<close> and no later
  candidate of the list is attempted. Here the candidate list is \<open>pre @ m # post\<close>, the
  candidates of \<open>pre\<close> are skipped without a call, \<open>m\<close> is the first candidate whose
  connector is called, and that call fails with \<open>e\<close>.
\<close>

theorem error_policy_propagates_first_failure:
  assumes "fallbackBehavior (orch_config orch) = FallbackError"
    and "find_selector orch task = Some selector"
    and "modelPriority selector = pre @ m # post"
    and "\<forall>c \<in> set pre. skipped (orch_config orch) (registry orch) c"
    and "called (orch_config orch) (registry orch) m mc"
    and "executeWithModel call (provider mc) (modelId mc) task streaming w = (Inl e, w')"
  shows "outcome (executeTask orch call taskId task streaming w) = Inl e
     \<and> attempted (executeTask orch call taskId task streaming w) = [(m, Inl e)]
     \<and> world (executeTask orch call taskId task streaming w) = w'"
proof -
  have "try_models (orch_config orch) (registry orch) call taskId task streaming
          (modelPriority selector) w (activeRequests orch)
     = \<lparr>outcome = Inl e, attempted = [(m, Inl e)], world = w',
        active = AList.delete taskId
                   (AList.update taskId (provider mc) (activeRequests orch))\<rparr>"
    unfolding assms(3) try_models_skip_prefix[OF assms(4)]
    using assms(1,5,6) by (rule try_models_error_stops)
  then show ?thesis using assms(2) by (simp add: executeTask_def Let_def)
qed

theorem error_policy_propagates_first_failure_witness:
  "outcome (executeTask strict_orchestrator scripted_call ''task_1'' generate_task False
      [Settled (Inl (Error ''boom'' None None)), Settled (Inr ok_response)])
     = Inl (Error ''boom'' None None)
   \<and> attempted (executeTask strict_orchestrator scripted_call ''task_1'' generate_task False
      [Settled (Inl (Error ''boom'' None None)), Settled (Inr ok_response)])
     = [(''general-purpose'', Inl (Error ''boom'' None None))]
   \<and> world (executeTask strict_orchestrator scripted_call ''task_1'' generate_task False
      [Settled (Inl (Error ''boom'' None None)), Settled (Inr ok_response)])
     = [Settled (Inr ok_response)]"
proof -
  let ?mc = "\<lparr>provider = ''openai'', modelId = ''gpt-3.5-turbo'', enabled = True, priority = 5,
           capabilities = [''general-assistance'', ''quick-answers''],
           contextWindow = 4096\<rparr>"
  have h1: "fallbackBehavior (orch_config strict_orchestrator) = FallbackError"
    by (simp add: fixture_defs)
  have h2: "find_selector strict_orchestrator generate_task = Some code_generation_selector"
    by (simp add: fixture_defs)
  have h3: "modelPriority code_generation_selector
      = [''code-specialist''] @ ''general-purpose'' # [''fallback'']"
    by (simp add: code_generation_selector_def)
  have h4: "\<forall>c \<in> set [''code-specialist''].
      skipped (orch_config strict_orchestrator) (registry strict_orchestrator) c"
    by (simp add: fixture_defs skipped_def)
  have h5: "called (orch_config strict_orchestrator) (registry strict_orchestrator)
      ''general-purpose'' ?mc"
    by (simp add: fixture_defs called_def)
  have h6: "executeWithModel scripted_call (provider ?mc) (modelId ?mc) generate_task False
      [Settled (Inl (Error ''boom'' None None)), Settled (Inr ok_response)]
      = (Inl (Error ''boom'' None None), [Settled (Inr ok_response)])"
    by (simp add: executeWithModel_def scripted_call_def)
  from error_policy_propagates_first_failure[OF h1 h2 h3 h4 h5 h6, of "''task_1''"]
  show ?thesis .
qed

text \<open>
  C3: \<open>executeTask\<close> under \<open>fallbackBehavior\<close> "retry" is observationally identical to
  \<open>executeTask\<close> under "alternative": for every task and every behaviour of the connector
  calls, both configurations attempt the same candidates in the same order and produce the
  same result or error (and leave the same state behind).
\<close>

theorem retry_equals_alternative:
  "executeTask (orch\<lparr>orch_config := (orch_config orch)\<lparr>fallbackBehavior := FallbackRetry\<rparr>\<rparr>)
     call taskId task streaming w
   = executeTask (orch\<lparr>orch_config := (orch_config orch)\<lparr>fallbackBehavior := FallbackAlternative\<rparr>\<rparr>)
     call taskId task streaming w"
  by (simp add: executeTask_def find_selector_def try_models_retry_alternative
      split: option.splits)

theorem retry_equals_alternative_witness:
  "executeTask
     (default_orchestrator
        \<lparr>orch_config := (orch_config default_orchestrator)\<lparr>fallbackBehavior := FallbackRetry\<rparr>\<rparr>)
     scripted_call ''task_1'' generate_task False
     [Settled (Inl (Error ''boom'' None None)), Settled (Inr ok_response)]
   = \<lparr>outcome = Inr ok_response,
      attempted = [(''code-specialist'', Inl (Error ''boom'' None None)),
                   (''general-purpose'', Inr ok_response)],
      world = [], active = []\<rparr>
   \<and> executeTask
     (default_orchestrator
        \<lparr>orch_config := (orch_config default_orchestrator)\<lparr>fallbackBehavior := FallbackAlternative\<rparr>\<rparr>)
     scripted_call ''task_1'' generate_task False
     [Settled (Inl (Error ''boom'' None None)), Settled (Inr ok_response)]
   = \<lparr>outcome = Inr ok_response,
      attempted = [(''code-specialist'', Inl (Error ''boom'' None None)),
                   (''general-purpose'', Inr ok_response)],
      world = [], active = []\<rparr>"
proof -
  have "executeTask
     (default_orchestrator
        \<lparr>orch_config := (orch_config default_orchestrator)\<lparr>fallbackBehavior := FallbackAlternative\<rparr>\<rparr>)
     scripted_call ''task_1'' generate_task False
     [Settled (Inl (Error ''boom'' None None)), Settled (Inr ok_response)]
   = \<lparr>outcome = Inr ok_response,
      attempted = [(''code-specialist'', Inl (Error ''boom'' None None)),
                   (''general-purpose'', Inr ok_response)],
      world = [], active = []\<rparr>"
    by (simp add: executeTask_def fixture_defs executeWithModel_def scripted_call_def)
  with retry_equals_alternative[of default_orchestrator scripted_call "''task_1''"
      generate_task False "[Settled (Inl (Error ''boom'' None None)), Settled (Inr ok_response)]"]
  show ?thesis by simp
qed

text \<open>
  C8: when a selector matched and the candidate list is exhausted without any candidate call
  succeeding, \<open>executeTask\<close> fails with the error "All models failed for task: " followed by
  the task's type. Exhausted without success means: every candidate of the list is skipped
  or has its connector called, every call made in the run failed, and a call was made
  only under a fallback policy other than "error". Every candidate that was not skipped
  was then called, in the order of the list.
\<close>

theorem exhausted_candidates_fail_with_all_models_failed:
  assumes "find_selector orch task = Some selector"
    and "\<forall>m \<in> set (modelPriority selector).
      skipped (orch_config orch) (registry orch) m \<or>
      (\<exists>mc. called (orch_config orch) (registry orch) m mc)"
    and "\<forall>c \<in> set (attempted (executeTask orch call taskId task streaming w)). isl (snd c)"
    and "fallbackBehavior (orch_config orch) = FallbackError \<longrightarrow>
      attempted (executeTask orch call taskId task streaming w) = []"
  shows "outcome (executeTask orch call taskId task streaming w)
     = Inl (Error (''All models failed for task: '' @ task_type task) None None)
   \<and> map fst (attempted (executeTask orch call taskId task streaming w))
     = filter (\<lambda>m. \<not> skipped (orch_config orch) (registry orch) m) (modelPriority selector)"
proof -
  let ?r = "try_models (orch_config orch) (registry orch) call taskId task streaming
          (modelPriority selector) w (activeRequests orch)"
  have att: "attempted (executeTask orch call taskId task streaming w) = attempted ?r"
    and out: "outcome (executeTask orch call taskId task streaming w) = outcome ?r"
    using assms(1) by (simp_all add: executeTask_def Let_def split: sum.splits)
  from assms(3,4) have "\<forall>c \<in> set (attempted ?r). isl (snd c)"
    and "fallbackBehavior (orch_config orch) = FallbackError \<longrightarrow> attempted ?r = []"
    unfolding att by simp_all
  from try_models_exhausted[OF assms(2) this] show ?thesis
    unfolding att out by simp
qed

theorem exhausted_candidates_fail_with_all_models_failed_witness:
  "outcome (executeTask default_orchestrator scripted_call ''task_1'' generate_task False
      [Settled (Inl (Error ''boom'' None None)), TimerFired,
       Settled (Inl (Error ''boom'' None None))])
     = Inl (Error ''All models failed for task: generate'' None None)
   \<and> map fst (attempted (executeTask default_orchestrator scripted_call ''task_1''
      generate_task False
      [Settled (Inl (Error ''boom'' None None)), TimerFired,
       Settled (Inl (Error ''boom'' None None))]))
     = [''code-specialist'', ''general-purpose'', ''fallback'']"
proof -
  let ?script = "[Settled (Inl (Error ''boom'' None None)), TimerFired,
       Settled (Inl (Error ''boom'' None None))]"
  let ?run = "executeTask default_orchestrator scripted_call ''task_1'' generate_task False ?script"
  have run: "attempted ?run
     = [(''code-specialist'', Inl (Error ''boom'' None None)),
        (''general-purpose'', Inl (Error ''Model timeout'' None None)),
        (''fallback'', Inl (Error ''boom'' None None))]"
    by (simp add: executeTask_def fixture_defs executeWithModel_def scripted_call_def)
  have h1: "find_selector default_orchestrator generate_task = Some code_generation_selector"
    by (simp add: fixture_defs)
  have h2: "\<forall>m \<in> set (modelPriority code_generation_selector).
      skipped (orch_config default_orchestrator) (registry default_orchestrator) m \<or>
      (\<exists>mc. called (orch_config default_orchestrator) (registry default_orchestrator) m mc)"
    by (simp add: fixture_defs called_def skipped_def)
  have h3: "\<forall>c \<in> set (attempted ?run). isl (snd c)"
    unfolding run by simp
  have h4: "fallbackBehavior (orch_config default_orchestrator) = FallbackError \<longrightarrow>
      attempted ?run = []"
    by (simp add: fixture_defs)
  have f: "filter (\<lambda>m. \<not> skipped (orch_config default_orchestrator)
        (registry default_orchestrator) m) (modelPriority code_generation_selector)
      = [''code-specialist'', ''general-purpose'', ''fallback'']"
    by (simp add: fixture_defs skipped_def)
  from exhausted_candidates_fail_with_all_models_failed[OF h1 h2 h3 h4] f
  show ?thesis by (simp add: generate_task_def)
qed

section \<open>Verified properties of the request options\<close>

text \<open>
  C6, as stated, fails: for a task of type "complete" whose caller supplied no \<open>maxTokens\<close>
  the request carries 1500 max tokens, not 1000 (\<open>getMaxTokensForTask\<close> groups "complete"
  with "generate").
\<close>

theorem complete_task_max_tokens_counterexample:
  "supplied_maxTokens complete_task = None
   \<and> req_maxTokens (requestOptions ''gpt-4'' complete_task False) = 1500"
  by (simp add: requestOptions_def js_or_def getMaxTokensForTask_def complete_task_def
      supplied_maxTokens_def)

text \<open>
  C6 (amended): the request options of a candidate call carry the task's explicit per-call
  overrides whenever the caller supplied a non-zero value (a supplied non-zero temperature
  or maxTokens wins), and the task-type defaults when the caller supplied none:
  temperature 0.7 for generate/complete, 0.3 for explain/document, 0.2 for refactor/test,
  0.5 otherwise; max tokens 1500 for generate and for complete, 2000 for explain/document,
  1000 for refactor/test and otherwise.
\<close>

theorem effective_request_options:
  "(supplied_temperature task = Some t \<and> t \<noteq> 0 \<longrightarrow>
      req_temperature (requestOptions model_id task streaming) = t)
 \<and> (supplied_maxTokens task = Some n \<and> n \<noteq> 0 \<longrightarrow>
      req_maxTokens (requestOptions model_id task streaming) = n)
 \<and> (supplied_temperature task = None \<longrightarrow>
      req_temperature (requestOptions model_id task streaming) =
        (if task_type task \<in> {''generate'', ''complete''} then 0.7
         else if task_type task \<in> {''explain'', ''document''} then 0.3
         else if task_type task \<in> {''refactor'', ''test''} then 0.2
         else 0.5))
 \<and> (supplied_maxTokens task = None \<longrightarrow>
      req_maxTokens (requestOptions model_id task streaming) =
        (if task_type task \<in> {''generate'', ''complete''} then 1500
         else if task_type task \<in> {''explain'', ''document''} then 2000
         else 1000))"
  by (simp add: requestOptions_def js_or_def getTemperatureForTask_def getMaxTokensForTask_def)

theorem effective_request_options_witness:
  "req_temperature (requestOptions ''gpt-4'' tuned_task False) = 0.9
   \<and> req_maxTokens (requestOptions ''gpt-4'' tuned_task False) = 1500"
proof -
  have t: "supplied_temperature tuned_task = Some 0.9 \<and> (0.9::real) \<noteq> 0"
    and n: "supplied_maxTokens tuned_task = None"
    and ty: "task_type tuned_task = ''generate''"
    by (simp_all add: supplied_temperature_def supplied_maxTokens_def tuned_task_def)
  from effective_request_options[where task = tuned_task and t = "0.9" and model_id = "''gpt-4''"
      and streaming = False] t n ty
  show ?thesis by simp
qed

section \<open>Verified properties of the selectors\<close>

lemma modelSelectors_foldr_addTaskSelector:
  "modelSelectors (foldr addTaskSelector xs orch) = xs @ modelSelectors orch"
  by (induction xs) (simp_all add: addTaskSelector_def)

lemma modelSelectors_initialize:
  "initializeProviders mk orch = Inr ready \<Longrightarrow>
   modelSelectors (initialize mk orch) = modelSelectors orch @
       [code_generation_selector, explanation_selector, refactoring_selector,
        testing_selector, default_selector]"
  by (auto simp: initialize_def initializeProviders_def registerDefaultSelectors_def Let_def
      split: if_splits)

lemma find_with_catch_all:
  "\<exists>s. find (\<lambda>s. predicate s task) (xs @ [default_selector]) = Some s
       \<and> (s \<in> set xs \<or> s = default_selector)"
  by (induction xs) (auto simp: default_selector_def)

lemma builtin_selectors_nonempty:
  "s \<in> set [code_generation_selector, explanation_selector, refactoring_selector,
        testing_selector, default_selector] \<Longrightarrow> modelPriority s \<noteq> []"
  by (auto simp: code_generation_selector_def explanation_selector_def
      refactoring_selector_def testing_selector_def default_selector_def)

text \<open>
  When no provider could be initialised, \<open>initialize\<close> never registers the built-in
  selectors, and \<open>executeTask\<close> fails for want of a selector.
\<close>

lemma no_provider_no_selector:
  "providers cfg = [] \<Longrightarrow>
   modelSelectors (initialize mk (new_orchestrator cfg)) = []
   \<and> outcome (executeTask (initialize mk (new_orchestrator cfg)) call taskId task streaming w)
       = Inl (Error (''No model selector available for task: '' @ task_type task) None None)"
  by (simp add: initialize_def initializeProviders_def new_orchestrator_def executeTask_def
      find_selector_def)

text \<open>
  C7, as stated, fails: \<open>addTaskSelector\<close> accepts a selector with an empty candidate list;
  once it is prepended and matches, the selected candidate list is empty although the list
  of selectors still ends in the default catch-all.
\<close>

theorem empty_custom_selector_counterexample:
  "map_option modelPriority
     (find_selector (addTaskSelector empty_selector default_orchestrator) generate_task) = Some []
   \<and> last (modelSelectors (addTaskSelector empty_selector default_orchestrator))
       = default_selector"
  by (simp add: find_selector_def addTaskSelector_def empty_selector_def fixture_defs)

text \<open>
  C7 (amended): once initialisation has succeeded (at least one provider was initialised),
  selector lookup never comes up empty for any task: the registered selector list ends in
  the default catch-all selector, whose predicate is true for every task and whose
  candidate list is non-empty, and \<open>addTaskSelector\<close> preserves this by prepending, whether
  it is called before (\<open>earlier\<close>) or after (\<open>later\<close>) the built-in selectors are
  registered. The selected candidate list is non-empty provided every custom selector was
  added with a non-empty candidate list.
\<close>

theorem selector_lookup_never_empty:
  assumes "initializeProviders mk (foldr addTaskSelector earlier (new_orchestrator cfg))
             = Inr ready"
  shows "last (modelSelectors (foldr addTaskSelector later
           (initialize mk (foldr addTaskSelector earlier (new_orchestrator cfg)))))
          = default_selector
    \<and> (\<forall>t. predicate default_selector t) \<and> modelPriority default_selector \<noteq> []
    \<and> (\<exists>selector. find_selector (foldr addTaskSelector later
           (initialize mk (foldr addTaskSelector earlier (new_orchestrator cfg)))) task
            = Some selector
         \<and> ((\<forall>c \<in> set (later @ earlier). modelPriority c \<noteq> [])
              \<longrightarrow> modelPriority selector \<noteq> []))"
proof -
  let ?orch = "foldr addTaskSelector later
           (initialize mk (foldr addTaskSelector earlier (new_orchestrator cfg)))"
  let ?builtin = "[code_generation_selector, explanation_selector, refactoring_selector,
                   testing_selector]"
  have new: "modelSelectors (new_orchestrator cfg) = []"
    by (simp add: new_orchestrator_def)
  have sels: "modelSelectors ?orch = (later @ earlier @ ?builtin) @ [default_selector]"
    by (simp add: modelSelectors_foldr_addTaskSelector modelSelectors_initialize[OF assms] new)
  from find_with_catch_all[of task "later @ earlier @ ?builtin"]
  obtain s where s:
    "find (\<lambda>s. predicate s task) ((later @ earlier @ ?builtin) @ [default_selector]) = Some s"
    "s \<in> set (later @ earlier @ ?builtin) \<or> s = default_selector"
    by blast
  have "(\<forall>c \<in> set (later @ earlier). modelPriority c \<noteq> []) \<longrightarrow> modelPriority s \<noteq> []"
    using s(2) builtin_selectors_nonempty[of s] by auto
  with s(1) sels have "\<exists>selector. find_selector ?orch task = Some selector
         \<and> ((\<forall>c \<in> set (later @ earlier). modelPriority c \<noteq> [])
              \<longrightarrow> modelPriority selector \<noteq> [])"
    by (simp add: find_selector_def)
  moreover have "last (modelSelectors ?orch) = default_selector"
    unfolding sels by simp
  moreover have "(\<forall>t. predicate default_selector t) \<and> modelPriority default_selector \<noteq> []"
    by (simp add: default_selector_def)
  ultimately show ?thesis by blast
qed

theorem selector_lookup_never_empty_witness:
  "last (modelSelectors (foldr addTaskSelector [review_selector]
           (initialize keyed_connector (foldr addTaskSelector [] (new_orchestrator default_config)))))
     = default_selector
   \<and> (\<exists>selector. find_selector (foldr addTaskSelector [review_selector]
           (initialize keyed_connector (foldr addTaskSelector [] (new_orchestrator default_config))))
           generate_task = Some selector
        \<and> modelPriority selector \<noteq> [])"
proof -
  have "\<exists>ready. initializeProviders keyed_connector
          (foldr addTaskSelector [] (new_orchestrator default_config)) = Inr ready"
    by (simp add: initializeProviders_def new_orchestrator_def default_config_def
        default_openai_def default_anthropic_def keyed_connector_def)
  then obtain ready where h: "initializeProviders keyed_connector
          (foldr addTaskSelector [] (new_orchestrator default_config)) = Inr ready" ..
  have ne: "\<forall>c \<in> set ([review_selector] @ []). modelPriority c \<noteq> []"
    by (simp add: review_selector_def)
  from selector_lookup_never_empty[OF h, of "[review_selector]" generate_task] ne
  show ?thesis by blast
qed

section \<open>Verified properties of the introspection\<close>

lemma getModels_loop_cases:
  "getModels_loop reg entries
     = (if \<exists>entry \<in> set entries. registry_lookup reg (provider (snd entry)) = NotAConnector
        then Inl not_a_function
        else Inr (map (\<lambda>(name, modelConfig).
                   (name, with_available modelConfig
                      (case registry_lookup reg (provider modelConfig) of
                         Connector p \<Rightarrow> isConfigured p | Absent \<Rightarrow> False
                       | NotAConnector \<Rightarrow> False)))
               entries))"
proof (induction entries)
  case Nil
  then show ?case by simp
next
  case (Cons entry entries)
  obtain name modelConfig where e: "entry = (name, modelConfig)" by (cases entry)
  show ?case
    unfolding e using Cons.IH
    by (cases "registry_lookup reg (provider modelConfig)") auto
qed

lemma getModels_loop_returns:
  assumes "\<forall>entry \<in> set entries. registry_lookup reg (provider (snd entry)) \<noteq> NotAConnector"
  shows "getModels_loop reg entries
     = Inr (map (\<lambda>(name, modelConfig).
                   (name, with_available modelConfig
                      (case registry_lookup reg (provider modelConfig) of
                         Connector p \<Rightarrow> isConfigured p | Absent \<Rightarrow> False
                       | NotAConnector \<Rightarrow> False)))
               entries)"
  using assms by (simp add: getModels_loop_cases)

lemma getModels_loop_throws:
  assumes "\<exists>entry \<in> set entries. registry_lookup reg (provider (snd entry)) = NotAConnector"
  shows "getModels_loop reg entries = Inl not_a_function"
  using assms by (simp add: getModels_loop_cases)

lemma available_filter:
  "map snd (filter (\<lambda>(name, model). capability \<in> set (capabilities model) \<and> available model)
      (map (\<lambda>(name, modelConfig).
                   (name, with_available modelConfig
                      (case registry_lookup reg (provider modelConfig) of
                         Connector p \<Rightarrow> isConfigured p | Absent \<Rightarrow> False
                       | NotAConnector \<Rightarrow> False)))
           entries))
   = map (\<lambda>mc. with_available mc True)
      (filter (\<lambda>mc. capability \<in> set (capabilities mc) \<and>
                 (\<exists>p. registry_lookup reg (provider mc) = Connector p \<and> isConfigured p))
         (map snd entries))"
  by (induction entries) (auto simp: with_available_def split: registry_entry.splits)

text \<open>
  On a configuration in which no model names an inherited key of the registry object as
  its provider, \<open>getModelsByCapability\<close> returns exactly the configured models whose
  capability list contains the capability and whose provider is a configured connector of
  the registry, sorted by descending priority.
\<close>

lemma getModelsByCapability_exact_sorted:
  assumes "\<forall>entry \<in> set (models (orch_config orch)).
      registry_lookup (registry orch) (provider (snd entry)) \<noteq> NotAConnector"
  shows "\<exists>result. getModelsByCapability orch capability = Inr result
     \<and> mset result
       = mset (map (\<lambda>mc. with_available mc True)
           (filter (\<lambda>mc. capability \<in> set (capabilities mc) \<and>
                   (\<exists>p. registry_lookup (registry orch) (provider mc) = Connector p
                        \<and> isConfigured p))
             (map snd (models (orch_config orch)))))
     \<and> sorted_wrt (\<lambda>a b. priority a \<ge> priority b) result"
proof -
  let ?entries = "map (\<lambda>(name, modelConfig).
                   (name, with_available modelConfig
                      (case registry_lookup (registry orch) (provider modelConfig) of
                         Connector p \<Rightarrow> isConfigured p | Absent \<Rightarrow> False
                       | NotAConnector \<Rightarrow> False)))
               (models (orch_config orch))"
  let ?result = "sort_key (\<lambda>model. - priority model)
       (map snd
          (filter (\<lambda>(name, model). capability \<in> set (capabilities model) \<and> available model)
             ?entries))"
  have r: "getModelsByCapability orch capability = Inr ?result"
    by (simp add: getModelsByCapability_def getModels_def getModels_loop_returns[OF assms])
  have "sorted (map (\<lambda>model. - priority model) ?result)"
    by (rule sorted_sort_key)
  then have s: "sorted_wrt (\<lambda>a b. priority a \<ge> priority b) ?result"
    by (simp add: sorted_map sorted_wrt_iff_nth_less)
  have m: "mset ?result
       = mset (map (\<lambda>mc. with_available mc True)
           (filter (\<lambda>mc. capability \<in> set (capabilities mc) \<and>
                   (\<exists>p. registry_lookup (registry orch) (provider mc) = Connector p
                        \<and> isConfigured p))
             (map snd (models (orch_config orch)))))"
    unfolding available_filter[symmetric] by simp
  from r s m show ?thesis by blast
qed

lemma getModelsByCapability_chat:
  "getModelsByCapability chat_orchestrator ''chat''
     = Inr [with_available chat_large True, with_available chat_small True]"
  by (simp add: getModelsByCapability_def getModels_def chat_orchestrator_def fixture_defs
      chat_small_def chat_large_def code_only_def chat_orphan_def with_available_def
      object_prototype_keys_def)

text \<open>
  C9: for every capability \<open>X\<close>, \<open>getModelsByCapability(X)\<close> should return exactly the
  configured models whose capability list contains \<open>X\<close> and whose owning provider exists
  and \<open>isConfigured()\<close>, sorted by descending priority. It does not for a configuration in
  which a model names an inherited key of the registry object as its provider: the model
  has no provider and should be left out, but the call throws a \<open>TypeError\<close> instead of
  returning the list of the other models. Here the configuration has the two chat models
  of \<open>chat_orchestrator\<close> and a third whose provider is "constructor".
\<close>

theorem getModelsByCapability_inherited_key_throws:
  "getModelsByCapability inherited_key_orchestrator ''chat'' = Inl not_a_function
   \<and> map_of (registry inherited_key_orchestrator) ''constructor'' = None"
  by (simp add: getModelsByCapability_def getModels_def inherited_key_orchestrator_def
      chat_orchestrator_def fixture_defs chat_small_def chat_large_def chat_odd_def
      object_prototype_keys_def)

section \<open>Verified properties of the streaming decoders\<close>

lemmas stream_defs =
  openai_stream_def openai_initial_def openai_on_data_def openai_on_end_def openai_line_def
  openai_delta_def anthropic_stream_def anthropic_initial_def anthropic_on_data_def
  anthropic_on_end_def anthropic_line_def anthropic_event_def anthropic_final_def
  text_delta_def callback_def reject_def resolve_def on_error_def js_trim_def js_white_space_def js_length_def
  startsWith_def estimate_tokens_def updateRateLimitCounters_def Let_def

text \<open>
  The Anthropic decoder meets the callback contract on the structured framing: the text
  deltas "He", "llo", "!" and the stop event give the four calls of the contract and a
  response with the content "Hello!".
\<close>

lemma anthropic_hello_callbacks:
  "callbacks (anthropic_stream anthropic_parse 12 fresh_window anthropic_hello_events)
     = [(''He'', False), (''llo'', False), (''!'', False), ([], True)]"
  by (simp add: stream_defs anthropic_parse_def anthropic_hello_events_def
      anthropic_text_chunk_def fresh_window_def)

lemma anthropic_hello_response:
  "settled (anthropic_stream anthropic_parse 12 fresh_window anthropic_hello_events)
     = Some (Inr \<lparr>resp_id = ''msg_1'', resp_model = ''claude-3-sonnet'', content = ''Hello!'',
                  promptTokens = 12, completionTokens = 2, totalTokens = 14,
                  finishReason = [], created = 5\<rparr>)"
  by (simp add: stream_defs anthropic_parse_def anthropic_hello_events_def
      anthropic_text_chunk_def fresh_window_def)

text \<open>
  Whatever \<open>JSON.parse\<close> does, a complete line \<open>data: [DONE]\<close> makes the OpenAI decoder
  signal completion in the \<open>data\<close> handler and once more in the \<open>end\<close> handler; so does a
  left-over \<open>data: [DONE]\<close> without a newline.
\<close>

lemma openai_done_line_twice:
  "callbacks (openai_stream parse est window [Data ''data: [DONE]\<newline>'', End now])
     = [([], True), ([], True)]"
  by (simp add: stream_defs)

lemma openai_done_leftover_twice:
  "callbacks (openai_stream parse est window [Data ''data: [DONE]'', End now])
     = [([], True), ([], True)]"
  by (simp add: stream_defs)

text \<open>
  C1: every successful \<open>streamingChat\<close> call should give zero or more calls
  \<open>(text, false)\<close> followed by exactly one call \<open>(empty, true)\<close>; the frames "He", "llo",
  "!" followed by the stop sentinel should give exactly the calls \<open>("He", false)\<close>,
  \<open>("llo", false)\<close>, \<open>("!", false)\<close>, \<open>("", true)\<close> and a response with content "Hello!".
  The OpenAI decoder does not: on these frames followed by the sentinel line
  \<open>data: [DONE]\<close> the call resolves with content "Hello!", but \<open>("", true)\<close> is delivered
  twice, once for the sentinel and once when the stream ends.
\<close>

theorem openai_hello_done_twice:
  "callbacks (openai_stream openai_parse 12 fresh_window openai_hello_events)
     = [(''He'', False), (''llo'', False), (''!'', False), ([], True), ([], True)]
   \<and> settled (openai_stream openai_parse 12 fresh_window openai_hello_events)
     = Some (Inr \<lparr>resp_id = ''chatcmpl-1'', resp_model = ''gpt-4'', content = ''Hello!'',
                  promptTokens = 12, completionTokens = 2, totalTokens = 14,
                  finishReason = [], created = 1700000000\<rparr>)
   \<and> \<not> well_formed_callbacks
        (callbacks (openai_stream openai_parse 12 fresh_window openai_hello_events))"
proof -
  have c: "callbacks (openai_stream openai_parse 12 fresh_window openai_hello_events)
     = [(''He'', False), (''llo'', False), (''!'', False), ([], True), ([], True)]"
    by (simp add: stream_defs openai_parse_def openai_hello_events_def openai_delta_chunk_def
        fresh_window_def)
  have s: "settled (openai_stream openai_parse 12 fresh_window openai_hello_events)
     = Some (Inr \<lparr>resp_id = ''chatcmpl-1'', resp_model = ''gpt-4'', content = ''Hello!'',
                  promptTokens = 12, completionTokens = 2, totalTokens = 14,
                  finishReason = [], created = 1700000000\<rparr>)"
    by (simp add: stream_defs openai_parse_def openai_hello_events_def openai_delta_chunk_def
        fresh_window_def)
  from c s show ?thesis by (simp add: well_formed_callbacks_def)
qed

subsection \<open>The contract on bodies without the sentinel line\<close>

text \<open>
  Re-seeding the buffer with the trailing partial line loses nothing: splitting a
  concatenation is splitting the first part, keeping its complete lines, and splitting the
  left-over followed by the second part.
\<close>

lemma split_newline_nonempty: "split_newline s \<noteq> []"
  by (induction s) (auto split: list.splits)

lemma split_newline_append:
  "split_newline (x @ y) = butlast (split_newline x) @ split_newline (last (split_newline x) @ y)"
proof (induction x)
  case Nil
  then show ?case by simp
next
  case (Cons c cs)
  show ?case
  proof (cases "c = CHR 0x0A")
    case True
    then show ?thesis using Cons.IH by (simp add: split_newline_nonempty)
  next
    case False
    obtain l ls where sp: "split_newline cs = l # ls"
      using split_newline_nonempty[of cs] by (cases "split_newline cs") auto
    show ?thesis
    proof (cases ls)
      case Nil
      with sp Cons.IH False show ?thesis by simp
    next
      case (Cons l' ls')
      with sp Cons.IH False show ?thesis by simp
    qed
  qed
qed

lemma split_newline_pieces: "p \<in> set (split_newline s) \<Longrightarrow> CHR 0x0A \<notin> set p"
proof (induction s arbitrary: p)
  case Nil
  then show ?case by simp
next
  case (Cons c cs)
  then show ?case
    using split_newline_nonempty[of cs]
    by (cases "split_newline cs") (auto split: if_splits)
qed

lemma split_newline_single: "CHR 0x0A \<notin> set s \<Longrightarrow> split_newline s = [s]"
  by (induction s) auto

lemma callbacks_reject [simp]: "callbacks (reject e st) = callbacks st"
  and buffer_reject [simp]: "buffer (reject e st) = buffer st"
  by (simp_all add: reject_def split: option.splits)

lemma callbacks_resolve [simp]: "callbacks (resolve r st) = callbacks st"
  by (simp add: resolve_def split: option.splits)

lemma callbacks_callback [simp]: "callbacks (callback c d st) = callbacks st @ [(c, d)]"
  and buffer_callback [simp]: "buffer (callback c d st) = buffer st"
  by (simp_all add: callback_def)

lemma openai_delta_callbacks:
  "buffer (fst (openai_delta data st)) = buffer st
   \<and> (\<exists>extra. callbacks (fst (openai_delta data st)) = callbacks st @ extra
         \<and> list_all (\<lambda>c. \<not> snd c) extra)"
  by (auto simp: openai_delta_def Let_def split: list.splits option.splits)

lemma openai_line_callbacks:
  assumes "js_trim line \<noteq> ''data: [DONE]''"
  shows "buffer (fst (openai_line parse line st)) = buffer st
   \<and> (\<exists>extra. callbacks (fst (openai_line parse line st)) = callbacks st @ extra
         \<and> list_all (\<lambda>c. \<not> snd c) extra)"
proof -
  have "buffer (fst (openai_delta data st')) = buffer st \<and>
        (\<exists>extra. callbacks (fst (openai_delta data st')) = callbacks st @ extra
           \<and> list_all (\<lambda>c. \<not> snd c) extra)"
    if "buffer st' = buffer st" "callbacks st' = callbacks st" for data st'
    using openai_delta_callbacks[of data st'] that by simp
  then show ?thesis using assms
    by (auto simp: openai_line_def split: sum.splits)
qed

lemma openai_lines_callbacks:
  assumes "\<forall>l \<in> set lines. js_trim l \<noteq> ''data: [DONE]''"
  shows "buffer (fst (openai_lines parse lines st)) = buffer st
   \<and> (\<exists>extra. callbacks (fst (openai_lines parse lines st)) = callbacks st @ extra
         \<and> list_all (\<lambda>c. \<not> snd c) extra)"
  using assms
proof (induction lines arbitrary: st)
  case Nil
  then show ?case by simp
next
  case (Cons l ls)
  from Cons.prems have l: "js_trim l \<noteq> ''data: [DONE]''"
    and ls: "\<forall>l \<in> set ls. js_trim l \<noteq> ''data: [DONE]''" by simp_all
  obtain st' r where step: "openai_line parse l st = (st', r)" by (cases "openai_line parse l st")
  from openai_line_callbacks[OF l, of parse st] step
  obtain e1 where e1: "buffer st' = buffer st" "callbacks st' = callbacks st @ e1"
     "list_all (\<lambda>c. \<not> snd c) e1" by auto
  show ?case
  proof (cases r)
    case None
    from Cons.IH[OF ls, of st'] obtain e2 where
      "buffer (fst (openai_lines parse ls st')) = buffer st'"
      "callbacks (fst (openai_lines parse ls st')) = callbacks st' @ e2"
      "list_all (\<lambda>c. \<not> snd c) e2" by auto
    with e1 step None show ?thesis by auto
  next
    case (Some msg)
    with e1 step show ?thesis by auto
  qed
qed

lemma openai_on_data_callbacks:
  assumes "\<forall>l \<in> set (butlast (split_newline (buffer st @ chunk))). js_trim l \<noteq> ''data: [DONE]''"
  shows "buffer (openai_on_data parse chunk st) = last (split_newline (buffer st @ chunk))
   \<and> (\<exists>extra. callbacks (openai_on_data parse chunk st) = callbacks st @ extra
         \<and> list_all (\<lambda>c. \<not> snd c) extra)"
proof -
  let ?st1 = "st\<lparr>buffer := last (split_newline (buffer st @ chunk))\<rparr>"
  from openai_lines_callbacks[OF assms, of parse ?st1]
  obtain extra where e: "buffer (fst (openai_lines parse (butlast (split_newline (buffer st @ chunk))) ?st1))
        = last (split_newline (buffer st @ chunk))"
    "callbacks (fst (openai_lines parse (butlast (split_newline (buffer st @ chunk))) ?st1)) = callbacks st @ extra"
    "list_all (\<lambda>c. \<not> snd c) extra" by auto
  then show ?thesis
    by (auto simp: openai_on_data_def Let_def split: prod.splits option.splits)
qed

lemma data_fold:
  assumes step: "\<And>chunk st.
      \<forall>l \<in> set (butlast (split_newline (buffer st @ chunk))). js_trim l \<noteq> ''data: [DONE]'' \<Longrightarrow>
      buffer (h chunk st) = last (split_newline (buffer st @ chunk))
      \<and> (\<exists>extra. callbacks (h chunk st) = callbacks st @ extra \<and> list_all (\<lambda>c. \<not> snd c) extra)"
    and "\<forall>l \<in> set (butlast (split_newline (buffer st @ concat chunks))). js_trim l \<noteq> ''data: [DONE]''"
    and "CHR 0x0A \<notin> set (buffer st)"
  shows "buffer (foldl (\<lambda>st c. h c st) st chunks) = last (split_newline (buffer st @ concat chunks))
   \<and> (\<exists>extra. callbacks (foldl (\<lambda>st c. h c st) st chunks) = callbacks st @ extra
         \<and> list_all (\<lambda>c. \<not> snd c) extra)"
  using assms(2,3)
proof (induction chunks arbitrary: st)
  case Nil
  then show ?case by (simp add: split_newline_single)
next
  case (Cons c cs)
  let ?b = "last (split_newline (buffer st @ c))"
  have sp: "split_newline (buffer st @ concat (c # cs))
      = butlast (split_newline (buffer st @ c)) @ split_newline (?b @ concat cs)"
    using split_newline_append[of "buffer st @ c" "concat cs"] by simp
  then have bl: "butlast (split_newline (buffer st @ concat (c # cs)))
      = butlast (split_newline (buffer st @ c)) @ butlast (split_newline (?b @ concat cs))"
    by (simp add: butlast_append split_newline_nonempty)
  from sp have la: "last (split_newline (buffer st @ concat (c # cs)))
      = last (split_newline (?b @ concat cs))"
    by (simp add: split_newline_nonempty)
  from Cons.prems bl
  have h1: "\<forall>l \<in> set (butlast (split_newline (buffer st @ c))). js_trim l \<noteq> ''data: [DONE]''"
    and h2: "\<forall>l \<in> set (butlast (split_newline (?b @ concat cs))). js_trim l \<noteq> ''data: [DONE]''"
    by auto
  from step[OF h1] obtain e1 where e1: "buffer (h c st) = ?b"
    "callbacks (h c st) = callbacks st @ e1" "list_all (\<lambda>c. \<not> snd c) e1" by auto
  from h2 e1(1) have "\<forall>l \<in> set (butlast (split_newline (buffer (h c st) @ concat cs))).
      js_trim l \<noteq> ''data: [DONE]''" by simp
  moreover have "CHR 0x0A \<notin> set (buffer (h c st))"
    unfolding e1(1)
    using split_newline_pieces[of ?b "buffer st @ c"] split_newline_nonempty[of "buffer st @ c"]
    by simp
  ultimately obtain e2 where
    "buffer (foldl (\<lambda>st c. h c st) (h c st) cs) = last (split_newline (buffer (h c st) @ concat cs))"
    "callbacks (foldl (\<lambda>st c. h c st) (h c st) cs) = callbacks (h c st) @ e2"
    "list_all (\<lambda>c. \<not> snd c) e2"
    using Cons.IH[of "h c st"] by auto
  with e1 la show ?case by auto
qed

lemma foldl_map_Data:
  "foldl (\<lambda>st ev. openai_handle parse est ev st) st (map Data chunks)
   = foldl (\<lambda>st c. openai_on_data parse c st) st chunks"
  by (induction chunks arbitrary: st) simp_all

lemma openai_on_end_callbacks:
  assumes "js_trim (buffer st) \<noteq> ''data: [DONE]''"
  shows "\<exists>extra. callbacks (openai_on_end parse est now st) = callbacks st @ extra @ [([], True)]
         \<and> list_all (\<lambda>c. \<not> snd c) extra"
proof -
  let ?st1 = "(if js_trim (buffer st) \<noteq> [] then
               (if js_trim (buffer st) = ''data: [DONE]'' then callback [] True st
                else if startsWith (buffer st) ''data: '' then
                  (case parse (drop 6 (buffer st)) of
                     Inl msg \<Rightarrow> st
                   | Inr data \<Rightarrow>
                       (case openai_delta data st of
                          (st', None) \<Rightarrow> st'
                        | (st', Some msg) \<Rightarrow> st'))
                else st)
             else st)"
  have "\<exists>extra. callbacks ?st1 = callbacks st @ extra \<and> list_all (\<lambda>c. \<not> snd c) extra"
    using assms openai_delta_callbacks[of _ st]
    by (auto split: sum.splits prod.splits option.splits) (metis fst_conv)+
  then obtain extra where "callbacks ?st1 = callbacks st @ extra" "list_all (\<lambda>c. \<not> snd c) extra"
    by blast
  then show ?thesis
    unfolding openai_on_end_def Let_def by (intro exI[of _ extra]) simp
qed

text \<open>
  Apart from the sentinel the OpenAI decoder keeps the contract: when no line of the body,
  complete or left over, is \<open>data: [DONE]\<close>, every stream of data events followed by the
  end event gives calls \<open>(text, false)\<close> followed by exactly one terminal call, whatever
  \<open>JSON.parse\<close> returns or throws.
\<close>

lemma openai_contract_without_sentinel:
  assumes "\<forall>l \<in> set (split_newline (concat chunks)). js_trim l \<noteq> ''data: [DONE]''"
  shows "well_formed_callbacks
     (callbacks (openai_stream parse est window (map Data chunks @ [End now])))"
proof -
  let ?st = "foldl (\<lambda>st c. openai_on_data parse c st) (openai_initial window) chunks"
  have init: "buffer (openai_initial window) = []" "callbacks (openai_initial window) = []"
    by (simp_all add: openai_initial_def)
  have "\<forall>l \<in> set (butlast (split_newline (buffer (openai_initial window) @ concat chunks))).
      js_trim l \<noteq> ''data: [DONE]''"
    using assms init by (auto dest: in_set_butlastD)
  moreover have "CHR 0x0A \<notin> set (buffer (openai_initial window))" using init by simp
  ultimately obtain e1 where e1: "buffer ?st = last (split_newline (concat chunks))"
    "callbacks ?st = e1" "list_all (\<lambda>c. \<not> snd c) e1"
    using data_fold[where h = "openai_on_data parse" and st = "openai_initial window"
        and chunks = chunks, OF openai_on_data_callbacks] init by auto
  from e1(1) assms have "js_trim (buffer ?st) \<noteq> ''data: [DONE]''"
    using split_newline_nonempty[of "concat chunks"] by simp
  from openai_on_end_callbacks[OF this, of parse est now] obtain e2 where
    e2: "callbacks (openai_on_end parse est now ?st) = callbacks ?st @ e2 @ [([], True)]"
    "list_all (\<lambda>c. \<not> snd c) e2" by blast
  have "openai_stream parse est window (map Data chunks @ [End now]) = openai_on_end parse est now ?st"
    by (simp add: openai_stream_def foldl_map_Data)
  with e1 e2 show ?thesis by (simp add: well_formed_callbacks_def butlast_append)
qed

lemma anthropic_event_callbacks:
  "buffer (anthropic_event data st) = buffer st
   \<and> (\<exists>extra. callbacks (anthropic_event data st) = callbacks st @ extra
         \<and> list_all (\<lambda>c. \<not> snd c) extra)"
  by (auto simp: anthropic_event_def split: option.splits)

lemma anthropic_line_callbacks:
  assumes "js_trim line \<noteq> ''data: [DONE]''"
  shows "buffer (fst (anthropic_line parse line st)) = buffer st
   \<and> (\<exists>extra. callbacks (fst (anthropic_line parse line st)) = callbacks st @ extra
         \<and> list_all (\<lambda>c. \<not> snd c) extra)"
  using assms anthropic_event_callbacks[of _ st]
  by (auto simp: anthropic_line_def split: sum.splits)

lemma anthropic_lines_callbacks:
  assumes "\<forall>l \<in> set lines. js_trim l \<noteq> ''data: [DONE]''"
  shows "buffer (fst (anthropic_lines parse lines st)) = buffer st
   \<and> (\<exists>extra. callbacks (fst (anthropic_lines parse lines st)) = callbacks st @ extra
         \<and> list_all (\<lambda>c. \<not> snd c) extra)"
  using assms
proof (induction lines arbitrary: st)
  case Nil
  then show ?case by simp
next
  case (Cons l ls)
  from Cons.prems have l: "js_trim l \<noteq> ''data: [DONE]''"
    and ls: "\<forall>l \<in> set ls. js_trim l \<noteq> ''data: [DONE]''" by simp_all
  obtain st' r where step: "anthropic_line parse l st = (st', r)"
    by (cases "anthropic_line parse l st")
  from anthropic_line_callbacks[OF l, of parse st] step
  obtain e1 where e1: "buffer st' = buffer st" "callbacks st' = callbacks st @ e1"
     "list_all (\<lambda>c. \<not> snd c) e1" by auto
  show ?case
  proof (cases r)
    case None
    from Cons.IH[OF ls, of st'] obtain e2 where
      "buffer (fst (anthropic_lines parse ls st')) = buffer st'"
      "callbacks (fst (anthropic_lines parse ls st')) = callbacks st' @ e2"
      "list_all (\<lambda>c. \<not> snd c) e2" by auto
    with e1 step None show ?thesis by auto
  next
    case (Some msg)
    with e1 step show ?thesis by auto
  qed
qed

lemma anthropic_on_data_callbacks:
  assumes "\<forall>l \<in> set (butlast (split_newline (buffer st @ chunk))). js_trim l \<noteq> ''data: [DONE]''"
  shows "buffer (anthropic_on_data parse chunk st) = last (split_newline (buffer st @ chunk))
   \<and> (\<exists>extra. callbacks (anthropic_on_data parse chunk st) = callbacks st @ extra
         \<and> list_all (\<lambda>c. \<not> snd c) extra)"
proof -
  let ?st1 = "st\<lparr>buffer := last (split_newline (buffer st @ chunk))\<rparr>"
  from anthropic_lines_callbacks[OF assms, of parse ?st1]
  obtain extra where e:
    "buffer (fst (anthropic_lines parse (butlast (split_newline (buffer st @ chunk))) ?st1))
        = last (split_newline (buffer st @ chunk))"
    "callbacks (fst (anthropic_lines parse (butlast (split_newline (buffer st @ chunk))) ?st1))
        = callbacks st @ extra"
    "list_all (\<lambda>c. \<not> snd c) extra" by auto
  then show ?thesis
    by (auto simp: anthropic_on_data_def Let_def split: prod.splits option.splits)
qed

lemma anthropic_final_callbacks:
  "\<exists>extra. callbacks (anthropic_final data st) = callbacks st @ extra
         \<and> list_all (\<lambda>c. \<not> snd c) extra"
  by (auto simp: anthropic_final_def)

lemma anthropic_on_end_callbacks:
  "\<exists>extra. callbacks (anthropic_on_end parse est now st) = callbacks st @ extra @ [([], True)]
         \<and> list_all (\<lambda>c. \<not> snd c) extra"
proof -
  let ?st1 = "(if js_trim (buffer st) \<noteq> [] \<and> js_trim (buffer st) \<noteq> ''data: ''
                \<and> js_trim (buffer st) \<noteq> ''data: [DONE]'' then
               (if startsWith (buffer st) ''data: '' then
                  (case parse (drop 6 (buffer st)) of
                     Inl msg \<Rightarrow> st
                   | Inr data \<Rightarrow> anthropic_final data st)
                else st)
             else st)"
  have "\<exists>extra. callbacks ?st1 = callbacks st @ extra \<and> list_all (\<lambda>c. \<not> snd c) extra"
    using anthropic_final_callbacks[of _ st] by (auto split: sum.splits)
  then obtain extra where "callbacks ?st1 = callbacks st @ extra" "list_all (\<lambda>c. \<not> snd c) extra"
    by blast
  then show ?thesis
    unfolding anthropic_on_end_def Let_def by (intro exI[of _ extra]) simp
qed

lemma foldl_map_Data_anthropic:
  "foldl (\<lambda>st ev. anthropic_handle parse est ev st) st (map Data chunks)
   = foldl (\<lambda>st c. anthropic_on_data parse c st) st chunks"
  by (induction chunks arbitrary: st) simp_all

text \<open>
  The Anthropic decoder keeps the contract when no complete line of the body is
  \<open>data: [DONE]\<close>, which the structured framing never sends; a left-over sentinel is
  skipped by its end handler.
\<close>

lemma anthropic_contract_without_sentinel:
  assumes "\<forall>l \<in> set (butlast (split_newline (concat chunks))). js_trim l \<noteq> ''data: [DONE]''"
  shows "well_formed_callbacks
     (callbacks (anthropic_stream parse est window (map Data chunks @ [End now])))"
proof -
  let ?st = "foldl (\<lambda>st c. anthropic_on_data parse c st) (anthropic_initial window) chunks"
  have init: "buffer (anthropic_initial window) = []" "callbacks (anthropic_initial window) = []"
    by (simp_all add: anthropic_initial_def)
  have "\<forall>l \<in> set (butlast (split_newline (buffer (anthropic_initial window) @ concat chunks))).
      js_trim l \<noteq> ''data: [DONE]''"
    using assms init by auto
  moreover have "CHR 0x0A \<notin> set (buffer (anthropic_initial window))" using init by simp
  ultimately obtain e1 where e1: "callbacks ?st = e1" "list_all (\<lambda>c. \<not> snd c) e1"
    using data_fold[where h = "anthropic_on_data parse" and st = "anthropic_initial window"
        and chunks = chunks, OF anthropic_on_data_callbacks] init by auto
  from anthropic_on_end_callbacks[of parse est now ?st] obtain e2 where
    e2: "callbacks (anthropic_on_end parse est now ?st) = callbacks ?st @ e2 @ [([], True)]"
    "list_all (\<lambda>c. \<not> snd c) e2" by blast
  have "anthropic_stream parse est window (map Data chunks @ [End now])
      = anthropic_on_end parse est now ?st"
    by (simp add: anthropic_stream_def foldl_map_Data_anthropic)
  with e1 e2 show ?thesis by (simp add: well_formed_callbacks_def butlast_append)
qed

end
